theory Spec2Isabelle
  imports Main "HOL-Library.Word" "HOL-Library.AList" "HOL-Library.Multiset"
begin

unbundle bit_operations_syntax

section \<open>Values, documents and their printed form\<close>

text \<open>
  A document field holds a Go value of type \<^verbatim>\<open>any\<close>. The cases are the JSON shapes the
  engine stores: nil, a bool, a number, a string, a slice and a string-keyed map. A number
  is a Go integer; a float64 holding a whole number of magnitude below \<open>10^6\<close> prints the
  same way under \<^verbatim>\<open>%v\<close>, and other floating-point values are outside the embedding.

  A Go map is an association list with distinct keys. The order of the list is the order
  in which a \<^verbatim>\<open>range\<close> loop visits the keys; the Go runtime does not fix that order, so
  two lists with the same \<open>map_of\<close> are the same map (see \<open>same_map\<close>).
\<close>

datatype Value =
    VNil
  | VBool bool
  | VNum int
  | VStr string
  | VArr "Value list"
  | VObj "(string \<times> Value) list"

fun digits :: "nat \<Rightarrow> string" where
  "digits n =
     (if n < 10 then [''0123456789'' ! n]
      else digits (n div 10) @ [''0123456789'' ! (n mod 10)])"

definition itoa :: "int \<Rightarrow> string" where
  "itoa i = (if i < 0 then CHR ''-'' # digits (nat (- i)) else digits (nat i))"

fun join_space :: "string list \<Rightarrow> string" where
  "join_space [] = []"
| "join_space [s] = s"
| "join_space (s # t # ss) = s @ '' '' @ join_space (t # ss)"

text \<open>
  \<^verbatim>\<open>fmt.Sprintf("%v", v)\<close>: scalars print literally, a slice as \<^verbatim>\<open>[a b c]\<close>, a map as
  \<^verbatim>\<open>map[k:v ...]\<close>. fmt prints a map's entries in ascending key order; a \<open>VObj\<close> list is
  held in that order.
\<close>

fun Sprintf_v :: "Value \<Rightarrow> string" where
  "Sprintf_v VNil = ''<nil>''"
| "Sprintf_v (VBool b) = (if b then ''true'' else ''false'')"
| "Sprintf_v (VNum i) = itoa i"
| "Sprintf_v (VStr s) = s"
| "Sprintf_v (VArr vs) = ''['' @ join_space (map Sprintf_v vs) @ '']''"
| "Sprintf_v (VObj kvs) =
     ''map['' @ join_space (map (\<lambda>kv. fst kv @ '':'' @ Sprintf_v (snd kv)) kvs) @ '']''"

text \<open>\<^verbatim>\<open>strings.Compare\<close>: bytewise lexicographic order, as \<open>-1\<close>, \<open>0\<close> or \<open>1\<close>.\<close>

fun strings_Compare :: "string \<Rightarrow> string \<Rightarrow> int" where
  "strings_Compare [] [] = 0"
| "strings_Compare [] (y # ys) = - 1"
| "strings_Compare (x # xs) [] = 1"
| "strings_Compare (x # xs) (y # ys) =
     (if (of_char x :: nat) < of_char y then - 1
      else if (of_char y :: nat) < of_char x then 1
      else strings_Compare xs ys)"

record Document =
  doc_ID :: string
  doc_Data :: "(string \<times> Value) list"

text \<open>
  Modelled from the spec: \<^verbatim>\<open>Document.GetValue\<close> is not among the source files. The spec
  keeps \<^verbatim>\<open>_id\<close> out of \<^verbatim>\<open>data\<close> and has the \<^verbatim>\<open>_id\<close> index (an index on field
  \<^verbatim>\<open>_id\<close>) map every document's id to it, so the field \<^verbatim>\<open>_id\<close> reads the id and every
  other field reads \<^verbatim>\<open>data\<close>.
\<close>

definition GetValue :: "Document \<Rightarrow> string \<Rightarrow> Value option" where
  "GetValue doc field =
     (if field = ''_id'' then Some (VStr (doc_ID doc)) else map_of (doc_Data doc) field)"

text \<open>
  Modelled from the spec: \<^verbatim>\<open>Document.Clone\<close> is not among the source files; the spec has
  it return a deep copy. Values here are immutable, so the copy is the value itself.
\<close>

definition Clone :: "Document \<Rightarrow> Document" where
  "Clone doc = doc"

datatype error =
    DocumentExists string
  | DocumentNotFound string
  | RequiredFieldMissing string
  | InvalidFieldType string
  | SchemaValidationFailed error
  | IndexUpdateFailed error
  | CannotUpdateID
  | IndexExists string
  | IndexNotExist string
  | CannotDropIDIndex
  | AddToIndexFailed error
  | CollectionExists string
  | CollectionNotExist string
  | SchemaNoFields
  | SchemaEmptyFieldName
  | SchemaReservedID
  | SchemaInvalidType string
  | InvalidSchema error
  | DatabaseExists string
  | DatabaseNotExist string
  | ErrEOF
  | ErrUnexpectedEOF
  | ErrNegativeOffset
  | CodecError string
  | MarshalDocumentFailed error
  | CompressDocumentFailed error
  | WriteDocumentFailed error
  | DataFileNotExist
  | ReadHeaderFailed error
  | InvalidMagic "32 word"
  | LoadIndexFailed error
  | ReadEntryCountFailed error
  | EntryNotFound string
  | ReadDocumentDataFailed error
  | SliceBoundsOutOfRange
  | ChecksumMismatch string
  | DecompressDocumentFailed error
  | UnmarshalDocumentFailed error
  | ReadDocumentFailed string error
  | LoadMetadataFailed
  | CreateBinaryReaderFailed error
  | ReadDocumentsFailed error
  | SaveCollectionFailed string error
  | LoadCollectionFailed string error
  | MissingPayload

section \<open>Schema\<close>

text \<open>
  Modelled from the spec: the declarations of \<^verbatim>\<open>Schema\<close>, \<^verbatim>\<open>Field\<close> and
  \<^verbatim>\<open>FieldType\<close> are not among the source files. A field type is a string; the spec's
  closed set names six of them.
\<close>

type_synonym FieldType = string

definition TypeString :: FieldType where "TypeString = ''string''"
definition TypeNumber :: FieldType where "TypeNumber = ''number''"
definition TypeBoolean :: FieldType where "TypeBoolean = ''boolean''"
definition TypeObject :: FieldType where "TypeObject = ''object''"
definition TypeArray :: FieldType where "TypeArray = ''array''"
definition TypeDate :: FieldType where "TypeDate = ''date''"

record Field =
  fld_Type :: FieldType
  fld_Required :: bool

record Schema =
  sch_Fields :: "(string \<times> Field) list"

text \<open>
  \<^verbatim>\<open>ValidateType\<close> is not among the source files: \<open>ValidateFields\<close> takes it as the
  parameter \<open>vt\<close>. The loop visits the schema's fields in map order and returns the first
  failure.
\<close>

fun ValidateFields ::
  "(Value \<Rightarrow> FieldType \<Rightarrow> bool) \<Rightarrow> (string \<times> Field) list \<Rightarrow> Document \<Rightarrow> error option" where
  "ValidateFields vt [] doc = None"
| "ValidateFields vt ((fieldName, field) # rest) doc =
     (case GetValue doc fieldName of
        None \<Rightarrow>
          if fld_Required field then Some (RequiredFieldMissing fieldName)
          else ValidateFields vt rest doc
      | Some v \<Rightarrow>
          if \<not> vt v (fld_Type field) then Some (InvalidFieldType fieldName)
          else ValidateFields vt rest doc)"

definition ValidateDocument ::
  "(Value \<Rightarrow> FieldType \<Rightarrow> bool) \<Rightarrow> Schema option \<Rightarrow> Document \<Rightarrow> error option" where
  "ValidateDocument vt s doc =
     (case s of None \<Rightarrow> None | Some sch \<Rightarrow> ValidateFields vt (sch_Fields sch) doc)"

text \<open>
  Modelled from the spec: an instance of \<^verbatim>\<open>ValidateType\<close> for concrete runs. "number"
  accepts a numeric value, "object" and "array" the matching shape. The spec's "date"
  accepts a string that parses as an RFC 3339 timestamp; the parser is the parameter
  \<open>rfc3339\<close>.
\<close>

definition ValidateType_spec :: "(string \<Rightarrow> bool) \<Rightarrow> Value \<Rightarrow> FieldType \<Rightarrow> bool" where
  "ValidateType_spec rfc3339 v t =
     (if t = TypeString then (case v of VStr _ \<Rightarrow> True | _ \<Rightarrow> False)
      else if t = TypeNumber then (case v of VNum _ \<Rightarrow> True | _ \<Rightarrow> False)
      else if t = TypeBoolean then (case v of VBool _ \<Rightarrow> True | _ \<Rightarrow> False)
      else if t = TypeObject then (case v of VObj _ \<Rightarrow> True | _ \<Rightarrow> False)
      else if t = TypeArray then (case v of VArr _ \<Rightarrow> True | _ \<Rightarrow> False)
      else if t = TypeDate then (case v of VStr s \<Rightarrow> rfc3339 s | _ \<Rightarrow> False)
      else False)"

fun ValidateSchemaFields :: "(string \<times> Field) list \<Rightarrow> error option" where
  "ValidateSchemaFields [] = None"
| "ValidateSchemaFields ((fieldName, field) # rest) =
     (if fieldName = [] then Some SchemaEmptyFieldName
      else if fieldName = ''_id'' then Some SchemaReservedID
      else if fld_Type field \<in> set [TypeString, TypeNumber, TypeBoolean, TypeObject, TypeArray, TypeDate]
        then ValidateSchemaFields rest
      else Some (SchemaInvalidType fieldName))"

definition Validate :: "Schema option \<Rightarrow> error option" where
  "Validate s =
     (case s of
        None \<Rightarrow> None
      | Some sch \<Rightarrow>
          if sch_Fields sch = [] then Some SchemaNoFields
          else ValidateSchemaFields (sch_Fields sch))"

section \<open>Index\<close>

record Index =
  idx_Name :: string
  idx_FieldName :: string
  idx_Data :: "(string \<times> string) list"

text \<open>
  Modelled from the spec: \<^verbatim>\<open>NewIndex\<close> is not among the source files; it makes an index
  with no entries.
\<close>

definition NewIndex :: "string \<Rightarrow> string \<Rightarrow> Index" where
  "NewIndex name fieldName = \<lparr>idx_Name = name, idx_FieldName = fieldName, idx_Data = []\<rparr>"

text \<open>
  \<open>AddToIndex\<close> and \<open>RemoveFromIndex\<close> return the error of the Go method (\<open>None\<close> is
  \<^verbatim>\<open>nil\<close>) and the index as the call leaves it.
\<close>

definition AddToIndex :: "Index \<Rightarrow> Document \<Rightarrow> error option \<times> Index" where
  "AddToIndex idx doc =
     (case GetValue doc (idx_FieldName idx) of
        None \<Rightarrow> (None, idx)
      | Some v \<Rightarrow>
          (None, idx\<lparr>idx_Data := AList.update (Sprintf_v v) (doc_ID doc) (idx_Data idx)\<rparr>))"

definition RemoveFromIndex :: "Index \<Rightarrow> Document \<Rightarrow> error option \<times> Index" where
  "RemoveFromIndex idx doc =
     (case GetValue doc (idx_FieldName idx) of
        None \<Rightarrow> (None, idx)
      | Some v \<Rightarrow> (None, idx\<lparr>idx_Data := AList.delete (Sprintf_v v) (idx_Data idx)\<rparr>))"

definition Index_Find :: "Index \<Rightarrow> Value \<Rightarrow> string option" where
  "Index_Find idx v = map_of (idx_Data idx) (Sprintf_v v)"

section \<open>Collection\<close>

record Collection =
  coll_Name :: string
  coll_Schema :: "Schema option"
  coll_Documents :: "(string \<times> Document) list"
  coll_Indexes :: "(string \<times> Index) list"

text \<open>
  Modelled from the spec: \<^verbatim>\<open>NewCollection\<close> is not among the source files; a new
  collection has no documents and the automatic \<^verbatim>\<open>_id\<close> index.
\<close>

definition NewCollection :: "string \<Rightarrow> Schema option \<Rightarrow> Collection" where
  "NewCollection name schema =
     \<lparr>coll_Name = name, coll_Schema = schema, coll_Documents = [],
      coll_Indexes = [(''_id'', NewIndex ''_id'' ''_id'')]\<rparr>"

text \<open>
  \<open>updateIndexes\<close> visits the indexes in map order; an index is updated in place, so the
  indexes visited before a failure keep their update.
\<close>

fun updateIndexes ::
  "(string \<times> Index) list \<Rightarrow> Document option \<Rightarrow> Document option
     \<Rightarrow> error option \<times> (string \<times> Index) list" where
  "updateIndexes [] oldDoc newDoc = (None, [])"
| "updateIndexes ((n, idx) # rest) oldDoc newDoc =
     (case (case oldDoc of None \<Rightarrow> (None, idx) | Some od \<Rightarrow> RemoveFromIndex idx od) of
        (Some e, idx1) \<Rightarrow> (Some e, (n, idx1) # rest)
      | (None, idx1) \<Rightarrow>
          (case (case newDoc of None \<Rightarrow> (None, idx1) | Some nd \<Rightarrow> AddToIndex idx1 nd) of
             (Some e, idx2) \<Rightarrow> (Some e, (n, idx2) # rest)
           | (None, idx2) \<Rightarrow>
               (case updateIndexes rest oldDoc newDoc of
                  (e, rest') \<Rightarrow> (e, (n, idx2) # rest'))))"

text \<open>
  \<open>Insert\<close>: \<open>uuid\<close> is the string \<^verbatim>\<open>uuid.New().String()\<close> returns, used when the
  document comes without an id (\<open>assignID\<close>). The result is the returned error and the
  collection as the call leaves it.
\<close>

definition assignID :: "string \<Rightarrow> Document \<Rightarrow> Document" where
  "assignID uuid doc = (if doc_ID doc = [] then doc\<lparr>doc_ID := uuid\<rparr> else doc)"

definition Insert ::
  "(Value \<Rightarrow> FieldType \<Rightarrow> bool) \<Rightarrow> string \<Rightarrow> Collection \<Rightarrow> Document
     \<Rightarrow> error option \<times> Collection" where
  "Insert vt uuid c doc0 =
     (let doc = assignID uuid doc0 in
      if map_of (coll_Documents c) (doc_ID doc) \<noteq> None
        then (Some (DocumentExists (doc_ID doc)), c)
      else
        (case ValidateDocument vt (coll_Schema c) doc of
           Some e \<Rightarrow> (Some (SchemaValidationFailed e), c)
         | None \<Rightarrow>
             (let c1 = c\<lparr>coll_Documents := AList.update (doc_ID doc) doc (coll_Documents c)\<rparr> in
              case updateIndexes (coll_Indexes c1) None (Some doc) of
                (Some e, idxs) \<Rightarrow>
                  (Some (IndexUpdateFailed e),
                   c1\<lparr>coll_Indexes := idxs,
                      coll_Documents := AList.delete (doc_ID doc) (coll_Documents c1)\<rparr>)
              | (None, idxs) \<Rightarrow> (None, c1\<lparr>coll_Indexes := idxs\<rparr>))))"

definition FindByID :: "Collection \<Rightarrow> string \<Rightarrow> error + Document" where
  "FindByID c docID =
     (case map_of (coll_Documents c) docID of
        None \<Rightarrow> Inl (DocumentNotFound docID)
      | Some doc \<Rightarrow> Inr (Clone doc))"

text \<open>
  \<open>applyUpdates\<close> is the loop of \<open>Update\<close> over the updates map, in map order. The stored
  document is updated in place, key by key; at the key \<^verbatim>\<open>_id\<close> the loop returns the error
  with the keys visited before it already written.
\<close>

fun applyUpdates ::
  "(string \<times> Value) list \<Rightarrow> (string \<times> Value) list \<Rightarrow> error option \<times> (string \<times> Value) list" where
  "applyUpdates data [] = (None, data)"
| "applyUpdates data ((key, v) # rest) =
     (if key = ''_id'' then (Some CannotUpdateID, data)
      else applyUpdates (AList.update key v data) rest)"

definition Update ::
  "(Value \<Rightarrow> FieldType \<Rightarrow> bool) \<Rightarrow> Collection \<Rightarrow> string \<Rightarrow> (string \<times> Value) list
     \<Rightarrow> error option \<times> Collection" where
  "Update vt c docID updates =
     (case map_of (coll_Documents c) docID of
        None \<Rightarrow> (Some (DocumentNotFound docID), c)
      | Some doc0 \<Rightarrow>
          (let oldDoc = Clone doc0 in
           case applyUpdates (doc_Data doc0) updates of
             (Some e, data) \<Rightarrow>
               (Some e,
                c\<lparr>coll_Documents :=
                    AList.update docID (doc0\<lparr>doc_Data := data\<rparr>) (coll_Documents c)\<rparr>)
           | (None, data) \<Rightarrow>
               (let doc = doc0\<lparr>doc_Data := data\<rparr>;
                    c1 = c\<lparr>coll_Documents := AList.update docID doc (coll_Documents c)\<rparr> in
                case ValidateDocument vt (coll_Schema c1) doc of
                  Some e \<Rightarrow>
                    (Some (SchemaValidationFailed e),
                     c1\<lparr>coll_Documents := AList.update docID oldDoc (coll_Documents c1)\<rparr>)
                | None \<Rightarrow>
                    (case updateIndexes (coll_Indexes c1) (Some oldDoc) (Some doc) of
                       (Some e, idxs) \<Rightarrow>
                         (Some (IndexUpdateFailed e),
                          c1\<lparr>coll_Indexes := idxs,
                             coll_Documents := AList.update docID oldDoc (coll_Documents c1)\<rparr>)
                     | (None, idxs) \<Rightarrow> (None, c1\<lparr>coll_Indexes := idxs\<rparr>)))))"

definition Delete :: "Collection \<Rightarrow> string \<Rightarrow> error option \<times> Collection" where
  "Delete c docID =
     (case map_of (coll_Documents c) docID of
        None \<Rightarrow> (Some (DocumentNotFound docID), c)
      | Some doc \<Rightarrow>
          (case updateIndexes (coll_Indexes c) (Some doc) None of
             (Some e, idxs) \<Rightarrow> (Some (IndexUpdateFailed e), c\<lparr>coll_Indexes := idxs\<rparr>)
           | (None, idxs) \<Rightarrow>
               (None,
                c\<lparr>coll_Indexes := idxs,
                  coll_Documents := AList.delete docID (coll_Documents c)\<rparr>)))"

text \<open>
  \<open>CreateIndex\<close> builds the index over the documents in map order; a failure of
  \<open>AddToIndex\<close> leaves the collection without the index.
\<close>

fun buildIndex :: "Index \<Rightarrow> (string \<times> Document) list \<Rightarrow> error option \<times> Index" where
  "buildIndex idx [] = (None, idx)"
| "buildIndex idx ((k, doc) # rest) =
     (case AddToIndex idx doc of
        (Some e, idx') \<Rightarrow> (Some (AddToIndexFailed e), idx')
      | (None, idx') \<Rightarrow> buildIndex idx' rest)"

definition CreateIndex :: "Collection \<Rightarrow> string \<Rightarrow> string \<Rightarrow> error option \<times> Collection" where
  "CreateIndex c indexName fieldName =
     (if map_of (coll_Indexes c) indexName \<noteq> None then (Some (IndexExists indexName), c)
      else
        (case buildIndex (NewIndex indexName fieldName) (coll_Documents c) of
           (Some e, idx) \<Rightarrow> (Some e, c)
         | (None, idx) \<Rightarrow>
             (None, c\<lparr>coll_Indexes := AList.update indexName idx (coll_Indexes c)\<rparr>)))"

definition DropIndex :: "Collection \<Rightarrow> string \<Rightarrow> error option \<times> Collection" where
  "DropIndex c indexName =
     (if indexName = ''_id'' then (Some CannotDropIDIndex, c)
      else if map_of (coll_Indexes c) indexName = None then (Some (IndexNotExist indexName), c)
      else (None, c\<lparr>coll_Indexes := AList.delete indexName (coll_Indexes c)\<rparr>))"

section \<open>Queries\<close>

text \<open>
  Modelled from the spec: the declarations of \<^verbatim>\<open>Query\<close> and \<^verbatim>\<open>QueryFilter\<close> are not
  among the source files.
\<close>

record QueryFilter =
  flt_Field :: string
  flt_Operator :: string
  flt_Value :: Value

record Query =
  qry_Filters :: "QueryFilter list"
  qry_Limit :: int
  qry_Skip :: int

definition compareValues :: "Value \<Rightarrow> Value \<Rightarrow> int" where
  "compareValues a b = strings_Compare (Sprintf_v a) (Sprintf_v b)"

definition matchesFilter :: "Document \<Rightarrow> QueryFilter \<Rightarrow> bool" where
  "matchesFilter doc flt =
     (case GetValue doc (flt_Field flt) of
        None \<Rightarrow> False
      | Some v \<Rightarrow>
          (if flt_Operator flt = ''eq'' then Sprintf_v v = Sprintf_v (flt_Value flt)
           else if flt_Operator flt = ''ne'' then Sprintf_v v \<noteq> Sprintf_v (flt_Value flt)
           else if flt_Operator flt = ''gt'' then compareValues v (flt_Value flt) > 0
           else if flt_Operator flt = ''gte'' then compareValues v (flt_Value flt) \<ge> 0
           else if flt_Operator flt = ''lt'' then compareValues v (flt_Value flt) < 0
           else if flt_Operator flt = ''lte'' then compareValues v (flt_Value flt) \<le> 0
           else if flt_Operator flt = ''in'' then
             (case flt_Value flt of
                VArr arr \<Rightarrow> Sprintf_v v \<in> set (map Sprintf_v arr)
              | _ \<Rightarrow> False)
           else False))"

fun matchesAllFilters :: "Document \<Rightarrow> QueryFilter list \<Rightarrow> bool" where
  "matchesAllFilters doc [] = True"
| "matchesAllFilters doc (flt # filters) =
     (if \<not> matchesFilter doc flt then False else matchesAllFilters doc filters)"

text \<open>
  The index loop of \<open>Find\<close>, over the indexes in map order. An index on the filter's
  field that misses the key ends \<open>Find\<close> with no result; one that hits a stored document
  makes it the only candidate and ends the loop; one that hits an id with no document is
  passed over. When the loop ends without a candidate, every document is scanned.
\<close>

datatype IndexLookup = NoMatch | Candidate Document | NoIndex

fun lookupIndexes ::
  "(string \<times> Index) list \<Rightarrow> (string \<times> Document) list \<Rightarrow> QueryFilter \<Rightarrow> IndexLookup" where
  "lookupIndexes [] docs firstFilter = NoIndex"
| "lookupIndexes ((n, idx) # rest) docs firstFilter =
     (if idx_FieldName idx = flt_Field firstFilter then
        (case Index_Find idx (flt_Value firstFilter) of
           Some docID \<Rightarrow>
             (case map_of docs docID of
                Some doc \<Rightarrow> Candidate doc
              | None \<Rightarrow> lookupIndexes rest docs firstFilter)
         | None \<Rightarrow> NoMatch)
      else lookupIndexes rest docs firstFilter)"

definition skipLimit :: "Query \<Rightarrow> Document list \<Rightarrow> Document list" where
  "skipLimit query results =
     (if qry_Skip query > 0 \<and> qry_Skip query \<ge> int (length results) then []
      else
        (let results1 = (if qry_Skip query > 0 then drop (nat (qry_Skip query)) results else results)
         in if qry_Limit query > 0 \<and> qry_Limit query < int (length results1)
              then take (nat (qry_Limit query)) results1
            else results1))"

definition scanAll :: "(string \<times> Document) list \<Rightarrow> QueryFilter list \<Rightarrow> Document list" where
  "scanAll docs filters =
     map Clone (filter (\<lambda>doc. matchesAllFilters doc filters) (map snd docs))"

text \<open>\<open>Find\<close> returns no error on any path; the model returns the result slice.\<close>

definition Find :: "Collection \<Rightarrow> Query \<Rightarrow> Document list" where
  "Find c query =
     (case qry_Filters query of
        [] \<Rightarrow> skipLimit query (map (\<lambda>kd. Clone (snd kd)) (coll_Documents c))
      | firstFilter # _ \<Rightarrow>
          if flt_Operator firstFilter = ''eq'' then
            (case lookupIndexes (coll_Indexes c) (coll_Documents c) firstFilter of
               NoMatch \<Rightarrow> []
             | Candidate doc \<Rightarrow>
                 skipLimit query
                   (map Clone (filter (\<lambda>d. matchesAllFilters d (qry_Filters query)) [doc]))
             | NoIndex \<Rightarrow> skipLimit query (scanAll (coll_Documents c) (qry_Filters query)))
          else skipLimit query (scanAll (coll_Documents c) (qry_Filters query)))"

section \<open>Database\<close>

text \<open>
  Modelled from the spec: the declaration of \<^verbatim>\<open>Database\<close> and \<^verbatim>\<open>NewDatabase\<close> are not
  among the source files; a new database has no collections.
\<close>

record Database =
  db_Name :: string
  db_Collections :: "(string \<times> Collection) list"

definition NewDatabase :: "string \<Rightarrow> Database" where
  "NewDatabase name = \<lparr>db_Name = name, db_Collections = []\<rparr>"

definition CreateCollection ::
  "Database \<Rightarrow> string \<Rightarrow> Schema option \<Rightarrow> error option \<times> Database" where
  "CreateCollection db name schema =
     (if map_of (db_Collections db) name \<noteq> None then (Some (CollectionExists name), db)
      else
        (case Validate schema of
           Some e \<Rightarrow> (Some (InvalidSchema e), db)
         | None \<Rightarrow>
             (None,
              db\<lparr>db_Collections :=
                   AList.update name (NewCollection name schema) (db_Collections db)\<rparr>)))"

definition GetCollection :: "Database \<Rightarrow> string \<Rightarrow> error + Collection" where
  "GetCollection db name =
     (case map_of (db_Collections db) name of
        None \<Rightarrow> Inl (CollectionNotExist name)
      | Some coll \<Rightarrow> Inr coll)"

section \<open>Binary collection file\<close>

text \<open>
  A file is its bytes. Failures of the operating system (a directory that cannot be
  made, a write that fails) are outside the model; a read past the end of a file is in
  it. \<^verbatim>\<open>hash/crc32\<close>'s \<^verbatim>\<open>ChecksumIEEE\<close> is the reflected CRC-32 with polynomial
  \<open>0xEDB88320\<close>, computed bit by bit.
\<close>

type_synonym byte = "8 word"

definition bytes_of :: "string \<Rightarrow> byte list" where
  "bytes_of s = map (\<lambda>c. of_nat (of_char c)) s"

definition string_of :: "byte list \<Rightarrow> string" where
  "string_of bs = map (\<lambda>b. char_of (unat b)) bs"

definition crc_bit :: "32 word \<Rightarrow> 32 word" where
  "crc_bit c = (if bit c 0 then drop_bit 1 c XOR 0xEDB88320 else drop_bit 1 c)"

definition crc_byte :: "32 word \<Rightarrow> byte \<Rightarrow> 32 word" where
  "crc_byte c b =
     crc_bit (crc_bit (crc_bit (crc_bit (crc_bit (crc_bit (crc_bit (crc_bit (c XOR ucast b))))))))"

definition ChecksumIEEE :: "byte list \<Rightarrow> 32 word" where
  "ChecksumIEEE bs = foldl crc_byte 0xFFFFFFFF bs XOR 0xFFFFFFFF"

definition CollectionMagic :: "32 word" where
  "CollectionMagic = 0x43414348"

definition BinaryFormatVersion :: "16 word" where
  "BinaryFormatVersion = 1"

definition HeaderSize :: nat where
  "HeaderSize = 8"

definition DocEntryHeaderSize :: nat where
  "DocEntryHeaderSize = 20"

record BinaryHeader =
  hdr_Magic :: "32 word"
  hdr_Version :: "16 word"
  hdr_Flags :: "16 word"

record DocumentEntry =
  ent_Offset :: "64 word"
  ent_Size :: "32 word"
  ent_CompressedSize :: "32 word"
  ent_Checksum :: "32 word"

type_synonym OffsetIndex = "(string \<times> DocumentEntry) list"

text \<open>\<^verbatim>\<open>binary.LittleEndian\<close>: least significant byte first.\<close>

definition PutUint16 :: "16 word \<Rightarrow> byte list" where
  "PutUint16 w = [ucast w, ucast (drop_bit 8 w)]"

definition PutUint32 :: "32 word \<Rightarrow> byte list" where
  "PutUint32 w = [ucast w, ucast (drop_bit 8 w), ucast (drop_bit 16 w), ucast (drop_bit 24 w)]"

definition PutUint64 :: "64 word \<Rightarrow> byte list" where
  "PutUint64 w =
     [ucast w, ucast (drop_bit 8 w), ucast (drop_bit 16 w), ucast (drop_bit 24 w),
      ucast (drop_bit 32 w), ucast (drop_bit 40 w), ucast (drop_bit 48 w), ucast (drop_bit 56 w)]"

definition Uint16 :: "byte list \<Rightarrow> 16 word" where
  "Uint16 b = ucast (b ! 0) OR push_bit 8 (ucast (b ! 1))"

definition Uint32 :: "byte list \<Rightarrow> 32 word" where
  "Uint32 b =
     ucast (b ! 0) OR push_bit 8 (ucast (b ! 1)) OR push_bit 16 (ucast (b ! 2))
       OR push_bit 24 (ucast (b ! 3))"

definition Uint64 :: "byte list \<Rightarrow> 64 word" where
  "Uint64 b =
     ucast (b ! 0) OR push_bit 8 (ucast (b ! 1)) OR push_bit 16 (ucast (b ! 2))
       OR push_bit 24 (ucast (b ! 3)) OR push_bit 32 (ucast (b ! 4)) OR push_bit 40 (ucast (b ! 5))
       OR push_bit 48 (ucast (b ! 6)) OR push_bit 56 (ucast (b ! 7))"

text \<open>
  \<^verbatim>\<open>File.ReadAt\<close> fills a buffer of \<open>n\<close> bytes from an offset, or fails when the file
  ends before. \<^verbatim>\<open>File.Write\<close> writes at the handle's position, over the bytes that are
  there, and moves the position; a handle that has just been opened without
  \<^verbatim>\<open>O_APPEND\<close> is at position 0.
\<close>

definition ReadAt :: "byte list \<Rightarrow> nat \<Rightarrow> int \<Rightarrow> error + byte list" where
  "ReadAt file n off =
     (if off < 0 then Inl ErrNegativeOffset
      else if nat off + n \<le> length file then Inr (take n (drop (nat off) file))
      else if nat off \<ge> length file then Inl ErrEOF
      else Inl ErrUnexpectedEOF)"

definition file_Write :: "byte list \<times> nat \<Rightarrow> byte list \<Rightarrow> byte list \<times> nat" where
  "file_Write fp buf =
     (case fp of (file, pos) \<Rightarrow>
        (take pos file @ replicate (pos - length file) 0 @ buf @ drop (pos + length buf) file,
         pos + length buf))"

text \<open>
  The directory of a collection on disk. The JSON files hold the values they encode;
  \<^verbatim>\<open>collection.data\<close> and \<^verbatim>\<open>collection.idx\<close>, whose layout the source writes byte by
  byte, hold bytes. A file that does not exist is \<open>None\<close>.
\<close>

record CollectionMeta =
  meta_Name :: string
  meta_Schema :: "Schema option"
  meta_Indexes :: "(string \<times> string) list"
  meta_Format :: string

record IndexData =
  ixd_Name :: string
  ixd_FieldName :: string
  ixd_Data :: "(string \<times> string) list"

record CollectionDir =
  dir_meta :: "CollectionMeta option"
  dir_data :: "byte list option"
  dir_idx :: "byte list option"
  dir_indexes :: "(string \<times> IndexData) list"
  dir_documents :: "Document list option"

definition emptyDir :: CollectionDir where
  "emptyDir =
     \<lparr>dir_meta = None, dir_data = None, dir_idx = None, dir_indexes = [], dir_documents = None\<rparr>"

definition take_bytes :: "nat \<Rightarrow> byte list \<Rightarrow> error + byte list \<times> byte list" where
  "take_bytes n bs =
     (if n \<le> length bs then Inr (take n bs, drop n bs)
      else if bs = [] then Inl ErrEOF
      else Inl ErrUnexpectedEOF)"

definition encodeEntry :: "string \<times> DocumentEntry \<Rightarrow> byte list" where
  "encodeEntry ke =
     (case ke of (docID, entry) \<Rightarrow>
        PutUint32 (of_nat (length docID)) @ bytes_of docID @ PutUint64 (ent_Offset entry)
          @ PutUint32 (ent_Size entry) @ PutUint32 (ent_CompressedSize entry)
          @ PutUint32 (ent_Checksum entry))"

definition SaveOffsetIndex :: "OffsetIndex \<Rightarrow> byte list" where
  "SaveOffsetIndex index = PutUint32 (of_nat (length index)) @ concat (map encodeEntry index)"

fun readEntries :: "nat \<Rightarrow> byte list \<Rightarrow> OffsetIndex \<Rightarrow> error + OffsetIndex" where
  "readEntries 0 bs index = Inr index"
| "readEntries (Suc n) bs index =
     (case take_bytes 4 bs of
        Inl e \<Rightarrow> Inl e
      | Inr (idLen, bs1) \<Rightarrow>
     (case take_bytes (unat (Uint32 idLen)) bs1 of
        Inl e \<Rightarrow> Inl e
      | Inr (idBuf, bs2) \<Rightarrow>
     (case take_bytes 8 bs2 of
        Inl e \<Rightarrow> Inl e
      | Inr (off, bs3) \<Rightarrow>
     (case take_bytes 4 bs3 of
        Inl e \<Rightarrow> Inl e
      | Inr (sz, bs4) \<Rightarrow>
     (case take_bytes 4 bs4 of
        Inl e \<Rightarrow> Inl e
      | Inr (csz, bs5) \<Rightarrow>
     (case take_bytes 4 bs5 of
        Inl e \<Rightarrow> Inl e
      | Inr (ck, bs6) \<Rightarrow>
          readEntries n bs6
            (AList.update (string_of idBuf)
               \<lparr>ent_Offset = Uint64 off, ent_Size = Uint32 sz,
                  ent_CompressedSize = Uint32 csz, ent_Checksum = Uint32 ck\<rparr>
               index)))))))"

definition LoadOffsetIndex :: "byte list option \<Rightarrow> error + OffsetIndex" where
  "LoadOffsetIndex idxFile =
     (case idxFile of
        None \<Rightarrow> Inr []
      | Some bs \<Rightarrow>
          (case take_bytes 4 bs of
             Inl e \<Rightarrow> if e = ErrEOF then Inr [] else Inl (ReadEntryCountFailed e)
           | Inr (numEntries, rest) \<Rightarrow> readEntries (unat (Uint32 numEntries)) rest []))"

record BinaryCollectionWriter =
  w_dataFile :: "byte list"
  w_pos :: nat
  w_offset :: "64 word"
  w_index :: OffsetIndex

definition writeHeader :: "BinaryCollectionWriter \<Rightarrow> BinaryCollectionWriter" where
  "writeHeader w =
     (let buf = PutUint32 CollectionMagic @ PutUint16 BinaryFormatVersion @ PutUint16 1 in
      case file_Write (w_dataFile w, w_pos w) buf of
        (file, pos) \<Rightarrow> w\<lparr>w_dataFile := file, w_pos := pos, w_offset := of_nat (length buf)\<rparr>)"

text \<open>
  \<open>NewBinaryCollectionWriter\<close> opens \<^verbatim>\<open>collection.data\<close> with
  \<^verbatim>\<open>O_CREATE|O_RDWR\<close>: an existing file keeps its bytes, the handle is at position 0 and
  \<open>w_offset\<close> is the size of the file. The header is written when the file is empty, and
  the entries of an existing \<^verbatim>\<open>collection.idx\<close> are taken over.
\<close>

definition NewBinaryCollectionWriter :: "CollectionDir \<Rightarrow> BinaryCollectionWriter" where
  "NewBinaryCollectionWriter dir =
     (let data = (case dir_data dir of None \<Rightarrow> [] | Some bs \<Rightarrow> bs);
          w0 = \<lparr>w_dataFile = data, w_pos = 0, w_offset = of_nat (length data), w_index = []\<rparr>;
          w1 = (if length data = 0 then writeHeader w0 else w0)
      in case LoadOffsetIndex (dir_idx dir) of
           Inr existingIndex \<Rightarrow> w1\<lparr>w_index := existingIndex\<rparr>
         | Inl e \<Rightarrow> w1)"

text \<open>
  \<^verbatim>\<open>Document.MarshalJSON\<close>, \<^verbatim>\<open>Document.UnmarshalJSON\<close>, \<^verbatim>\<open>Compress\<close> and
  \<^verbatim>\<open>Decompress\<close> are not among the source files: the writer takes \<open>marshal\<close> and
  \<open>compress\<close>, the reader \<open>decompress\<close> and \<open>unmarshal\<close>, as parameters.
\<close>

definition WriteDocument ::
  "(Document \<Rightarrow> error + byte list) \<Rightarrow> (byte list \<Rightarrow> error + byte list)
     \<Rightarrow> BinaryCollectionWriter \<Rightarrow> Document \<Rightarrow> error + BinaryCollectionWriter" where
  "WriteDocument marshal compress w doc =
     (case marshal doc of
        Inl e \<Rightarrow> Inl (MarshalDocumentFailed e)
      | Inr jsonData \<Rightarrow>
     (case compress jsonData of
        Inl e \<Rightarrow> Inl (CompressDocumentFailed e)
      | Inr compressedData \<Rightarrow>
          (let checksum = ChecksumIEEE compressedData;
               entryBuf =
                 PutUint64 (w_offset w) @ PutUint32 (of_nat (length jsonData))
                   @ PutUint32 (of_nat (length compressedData)) @ PutUint32 checksum;
               fp1 = file_Write (w_dataFile w, w_pos w) entryBuf;
               fp2 = file_Write fp1 compressedData
           in Inr
                (w\<lparr>w_dataFile := fst fp2, w_pos := snd fp2,
                   w_index :=
                     AList.update (doc_ID doc)
                       \<lparr>ent_Offset = w_offset w, ent_Size = of_nat (length jsonData),
                          ent_CompressedSize = of_nat (length compressedData),
                          ent_Checksum = checksum\<rparr>
                       (w_index w),
                   w_offset := w_offset w + of_nat (DocEntryHeaderSize + length compressedData)\<rparr>))))"

record BinaryCollectionReader =
  r_dataFile :: "byte list"
  r_index :: OffsetIndex

definition readHeader :: "byte list \<Rightarrow> error + BinaryHeader" where
  "readHeader f =
     (case ReadAt f HeaderSize 0 of
        Inl e \<Rightarrow> Inl e
      | Inr buf \<Rightarrow>
          Inr \<lparr>hdr_Magic = Uint32 (take 4 buf), hdr_Version = Uint16 (take 2 (drop 4 buf)),
               hdr_Flags = Uint16 (take 2 (drop 6 buf))\<rparr>)"

definition NewBinaryCollectionReader :: "CollectionDir \<Rightarrow> error + BinaryCollectionReader" where
  "NewBinaryCollectionReader dir =
     (case dir_data dir of
        None \<Rightarrow> Inl DataFileNotExist
      | Some dataFile \<Rightarrow>
          (case readHeader dataFile of
             Inl e \<Rightarrow> Inl (ReadHeaderFailed e)
           | Inr header \<Rightarrow>
               if hdr_Magic header \<noteq> CollectionMagic then Inl (InvalidMagic (hdr_Magic header))
               else
                 (case LoadOffsetIndex (dir_idx dir) of
                    Inl e \<Rightarrow> Inl (LoadIndexFailed e)
                  | Inr index \<Rightarrow> Inr \<lparr>r_dataFile = dataFile, r_index = index\<rparr>)))"

text \<open>
  \<open>ReadDocument\<close>: the buffer has \<^verbatim>\<open>DocEntryHeaderSize+entry.CompressedSize\<close> bytes, an
  addition of \<^verbatim>\<open>uint32\<close>; slicing a buffer shorter than the entry header panics.
\<close>

definition ReadDocument ::
  "(byte list \<Rightarrow> error + byte list) \<Rightarrow> (byte list \<Rightarrow> error + Document)
     \<Rightarrow> BinaryCollectionReader \<Rightarrow> string \<Rightarrow> error + Document" where
  "ReadDocument decompress unmarshal r docID =
     (case map_of (r_index r) docID of
        None \<Rightarrow> Inl (EntryNotFound docID)
      | Some entry \<Rightarrow>
     (case ReadAt (r_dataFile r)
             (unat (of_nat DocEntryHeaderSize + ent_CompressedSize entry))
             (sint (ent_Offset entry)) of
        Inl e \<Rightarrow> Inl (ReadDocumentDataFailed e)
      | Inr buf \<Rightarrow>
          if length buf < DocEntryHeaderSize then Inl SliceBoundsOutOfRange
          else
            (let compressedData = drop DocEntryHeaderSize buf;
                 checksum = ChecksumIEEE compressedData
             in if checksum \<noteq> ent_Checksum entry then Inl (ChecksumMismatch docID)
                else
                  (case decompress compressedData of
                     Inl e \<Rightarrow> Inl (DecompressDocumentFailed e)
                   | Inr jsonData \<Rightarrow>
                       (case unmarshal jsonData of
                          Inl e \<Rightarrow> Inl (UnmarshalDocumentFailed e)
                        | Inr doc \<Rightarrow> Inr doc)))))"

fun readDocuments ::
  "(byte list \<Rightarrow> error + byte list) \<Rightarrow> (byte list \<Rightarrow> error + Document)
     \<Rightarrow> BinaryCollectionReader \<Rightarrow> string list \<Rightarrow> error + Document list" where
  "readDocuments decompress unmarshal r [] = Inr []"
| "readDocuments decompress unmarshal r (docID # rest) =
     (case ReadDocument decompress unmarshal r docID of
        Inl e \<Rightarrow> Inl (ReadDocumentFailed docID e)
      | Inr doc \<Rightarrow>
          (case readDocuments decompress unmarshal r rest of
             Inl e \<Rightarrow> Inl e
           | Inr docs \<Rightarrow> Inr (doc # docs)))"

definition ReadAllDocuments ::
  "(byte list \<Rightarrow> error + byte list) \<Rightarrow> (byte list \<Rightarrow> error + Document)
     \<Rightarrow> BinaryCollectionReader \<Rightarrow> error + Document list" where
  "ReadAllDocuments decompress unmarshal r =
     readDocuments decompress unmarshal r (map fst (r_index r))"


section \<open>Storage manager\<close>

definition FormatJSON :: string where
  "FormatJSON = ''json''"

definition FormatBinary :: string where
  "FormatBinary = ''binary''"

definition Serialize :: "Index \<Rightarrow> IndexData" where
  "Serialize idx =
     \<lparr>ixd_Name = idx_Name idx, ixd_FieldName = idx_FieldName idx, ixd_Data = idx_Data idx\<rparr>"

definition Deserialize :: "Index \<Rightarrow> IndexData \<Rightarrow> Index" where
  "Deserialize idx d =
     idx\<lparr>idx_Name := ixd_Name d, idx_FieldName := ixd_FieldName d, idx_Data := ixd_Data d\<rparr>"

definition SaveToDisk :: "CollectionDir \<Rightarrow> Index \<Rightarrow> CollectionDir" where
  "SaveToDisk dir idx =
     dir\<lparr>dir_indexes := AList.update (idx_Name idx) (Serialize idx) (dir_indexes dir)\<rparr>"

definition LoadIndexFromDisk :: "IndexData \<Rightarrow> Index" where
  "LoadIndexFromDisk d = Deserialize (NewIndex (ixd_Name d) (ixd_FieldName d)) d"

definition LoadAllIndexes :: "CollectionDir \<Rightarrow> (string \<times> Index) list" where
  "LoadAllIndexes dir =
     foldl (\<lambda>indexes nd. AList.update (fst nd) (LoadIndexFromDisk (snd nd)) indexes) []
       (dir_indexes dir)"

fun writeDocuments ::
  "(Document \<Rightarrow> error + byte list) \<Rightarrow> (byte list \<Rightarrow> error + byte list)
     \<Rightarrow> BinaryCollectionWriter \<Rightarrow> (string \<times> Document) list
     \<Rightarrow> error option \<times> BinaryCollectionWriter" where
  "writeDocuments marshal compress w [] = (None, w)"
| "writeDocuments marshal compress w ((k, doc) # rest) =
     (case WriteDocument marshal compress w doc of
        Inl e \<Rightarrow> (Some (WriteDocumentFailed e), w)
      | Inr w' \<Rightarrow> writeDocuments marshal compress w' rest)"

text \<open>
  \<open>Flush\<close> writes \<^verbatim>\<open>collection.idx\<close> anew from the writer's entries; the data file
  already holds what the writer wrote. The deferred \<^verbatim>\<open>Close\<close> of \<open>SaveCollection\<close>
  flushes once more, also when a document could not be written.
\<close>

definition Flush :: "CollectionDir \<Rightarrow> BinaryCollectionWriter \<Rightarrow> CollectionDir" where
  "Flush dir w =
     dir\<lparr>dir_data := Some (w_dataFile w), dir_idx := Some (SaveOffsetIndex (w_index w))\<rparr>"

definition SaveCollection ::
  "string \<Rightarrow> (Document \<Rightarrow> error + byte list) \<Rightarrow> (byte list \<Rightarrow> error + byte list)
     \<Rightarrow> CollectionDir \<Rightarrow> Collection \<Rightarrow> error option \<times> CollectionDir" where
  "SaveCollection format marshal compress dir0 coll =
     (let meta =
            \<lparr>meta_Name = coll_Name coll, meta_Schema = coll_Schema coll,
               meta_Indexes = map (\<lambda>ni. (fst ni, idx_FieldName (snd ni))) (coll_Indexes coll),
               meta_Format = format\<rparr>;
          dir = dir0\<lparr>dir_meta := Some meta\<rparr>
      in if format = FormatBinary then
           (case writeDocuments marshal compress (NewBinaryCollectionWriter dir)
                   (coll_Documents coll) of
              (Some e, w) \<Rightarrow> (Some e, Flush dir w)
            | (None, w) \<Rightarrow>
                (None, foldl SaveToDisk (Flush dir w) (map snd (coll_Indexes coll))))
         else (None, dir\<lparr>dir_documents := Some (map snd (coll_Documents coll))\<rparr>))"

text \<open>
  \<open>LoadCollection\<close>. The errors of \<open>NewBinaryCollectionReader\<close> are made with
  \<^verbatim>\<open>fmt.Errorf\<close>, for which \<^verbatim>\<open>os.IsNotExist\<close> is false, so each of them ends the load.
  The errors of \<open>AddToIndex\<close> are dropped where the \<^verbatim>\<open>_id\<close> index is rebuilt.
\<close>

definition restoreDocuments :: "Document list \<Rightarrow> (string \<times> Document) list" where
  "restoreDocuments docs = foldl (\<lambda>m doc. AList.update (doc_ID doc) doc m) [] docs"

definition rebuildIndex :: "Index \<Rightarrow> (string \<times> Document) list \<Rightarrow> Index" where
  "rebuildIndex idx docs = foldl (\<lambda>i kd. snd (AddToIndex i (snd kd))) idx docs"

definition rebuildIDIndex :: "Collection \<Rightarrow> Collection" where
  "rebuildIDIndex coll =
     (case map_of (coll_Indexes coll) ''_id'' of
        None \<Rightarrow> coll
      | Some idx \<Rightarrow>
          coll\<lparr>coll_Indexes :=
                 AList.update ''_id'' (rebuildIndex idx (coll_Documents coll)) (coll_Indexes coll)\<rparr>)"

definition recreateIndex :: "Collection \<Rightarrow> string \<times> string \<Rightarrow> Collection" where
  "recreateIndex coll nf =
     (case nf of (indexName, fieldName) \<Rightarrow>
        if indexName \<noteq> ''_id'' then
          coll\<lparr>coll_Indexes :=
                 AList.update indexName
                   (rebuildIndex (NewIndex indexName fieldName) (coll_Documents coll))
                   (coll_Indexes coll)\<rparr>
        else rebuildIDIndex coll)"

definition LoadCollection ::
  "(byte list \<Rightarrow> error + byte list) \<Rightarrow> (byte list \<Rightarrow> error + Document)
     \<Rightarrow> CollectionDir \<Rightarrow> error + Collection" where
  "LoadCollection decompress unmarshal dir =
     (case dir_meta dir of
        None \<Rightarrow> Inl LoadMetadataFailed
      | Some meta \<Rightarrow>
          (let format = (if meta_Format meta = [] then FormatJSON else meta_Format meta);
               coll = NewCollection (meta_Name meta) (meta_Schema meta)
           in if format = FormatBinary then
                (case NewBinaryCollectionReader dir of
                   Inl e \<Rightarrow> Inl (CreateBinaryReaderFailed e)
                 | Inr reader \<Rightarrow>
                     (case ReadAllDocuments decompress unmarshal reader of
                        Inl e \<Rightarrow> Inl (ReadDocumentsFailed e)
                      | Inr docs \<Rightarrow>
                          (let indexes = LoadAllIndexes dir;
                               coll1 = coll\<lparr>coll_Documents := restoreDocuments docs\<rparr>;
                               coll2 =
                                 coll1\<lparr>coll_Indexes :=
                                         foldl (\<lambda>m ni. AList.update (fst ni) (snd ni) m)
                                           (coll_Indexes coll1) indexes\<rparr>
                           in if map_of indexes ''_id'' = None then Inr (rebuildIDIndex coll2)
                              else Inr coll2)))
              else
                (let docs = (case dir_documents dir of None \<Rightarrow> [] | Some ds \<Rightarrow> ds);
                     coll1 = coll\<lparr>coll_Documents := restoreDocuments docs\<rparr>
                 in Inr (foldl recreateIndex coll1 (meta_Indexes meta)))))"

text \<open>
  The directory of a database: \<^verbatim>\<open>db.meta.json\<close> and one directory per collection. The
  disk maps database names to their directories.
\<close>

record DatabaseDir =
  dbdir_meta :: "string option"
  dbdir_collections :: "(string \<times> CollectionDir) list"

type_synonym Disk = "(string \<times> DatabaseDir) list"

fun saveCollections ::
  "string \<Rightarrow> (Document \<Rightarrow> error + byte list) \<Rightarrow> (byte list \<Rightarrow> error + byte list)
     \<Rightarrow> (string \<times> CollectionDir) list \<Rightarrow> (string \<times> Collection) list
     \<Rightarrow> error option \<times> (string \<times> CollectionDir) list" where
  "saveCollections format marshal compress dirs [] = (None, dirs)"
| "saveCollections format marshal compress dirs ((k, coll) # rest) =
     (let dir0 = (case map_of dirs (coll_Name coll) of None \<Rightarrow> emptyDir | Some d \<Rightarrow> d) in
      case SaveCollection format marshal compress dir0 coll of
        (Some e, dir) \<Rightarrow>
          (Some (SaveCollectionFailed (coll_Name coll) e), AList.update (coll_Name coll) dir dirs)
      | (None, dir) \<Rightarrow>
          saveCollections format marshal compress (AList.update (coll_Name coll) dir dirs) rest)"

definition SaveDatabase ::
  "string \<Rightarrow> (Document \<Rightarrow> error + byte list) \<Rightarrow> (byte list \<Rightarrow> error + byte list)
     \<Rightarrow> Disk \<Rightarrow> Database \<Rightarrow> error option \<times> Disk" where
  "SaveDatabase format marshal compress disk db =
     (let dbDir0 =
            (case map_of disk (db_Name db) of
               None \<Rightarrow> \<lparr>dbdir_meta = None, dbdir_collections = []\<rparr>
             | Some d \<Rightarrow> d);
          dbDir = dbDir0\<lparr>dbdir_meta := Some (db_Name db)\<rparr>
      in case saveCollections format marshal compress (dbdir_collections dbDir)
                (db_Collections db) of
           (e, dirs) \<Rightarrow> (e, AList.update (db_Name db) (dbDir\<lparr>dbdir_collections := dirs\<rparr>) disk))"

fun loadCollections ::
  "(byte list \<Rightarrow> error + byte list) \<Rightarrow> (byte list \<Rightarrow> error + Document)
     \<Rightarrow> Database \<Rightarrow> (string \<times> CollectionDir) list \<Rightarrow> error + Database" where
  "loadCollections decompress unmarshal db [] = Inr db"
| "loadCollections decompress unmarshal db ((entryName, dir) # rest) =
     (case LoadCollection decompress unmarshal dir of
        Inl e \<Rightarrow> Inl (LoadCollectionFailed entryName e)
      | Inr coll \<Rightarrow>
          loadCollections decompress unmarshal
            (db\<lparr>db_Collections := AList.update (coll_Name coll) coll (db_Collections db)\<rparr>) rest)"

definition LoadDatabase ::
  "(byte list \<Rightarrow> error + byte list) \<Rightarrow> (byte list \<Rightarrow> error + Document)
     \<Rightarrow> Disk \<Rightarrow> string \<Rightarrow> error + Database" where
  "LoadDatabase decompress unmarshal disk dbName =
     (case map_of disk dbName of
        None \<Rightarrow> Inl (DatabaseNotExist dbName)
      | Some dbDir \<Rightarrow>
          loadCollections decompress unmarshal (NewDatabase dbName) (dbdir_collections dbDir))"

text \<open>
  A serializer and a compressor for concrete runs: the document as JSON text with
  \<^verbatim>\<open>_id\<close> first and strings written without escapes, and a compressor that stores the
  bytes as they are.
\<close>

fun join_comma :: "string list \<Rightarrow> string" where
  "join_comma [] = []"
| "join_comma [s] = s"
| "join_comma (s # t # ss) = s @ '','' @ join_comma (t # ss)"

fun json_text :: "Value \<Rightarrow> string" where
  "json_text VNil = ''null''"
| "json_text (VBool b) = (if b then ''true'' else ''false'')"
| "json_text (VNum i) = itoa i"
| "json_text (VStr s) = [CHR 0x22] @ s @ [CHR 0x22]"
| "json_text (VArr vs) = ''['' @ join_comma (map json_text vs) @ '']''"
| "json_text (VObj kvs) =
     ''{'' @ join_comma (map (\<lambda>kv. [CHR 0x22] @ fst kv @ [CHR 0x22] @ '':'' @ json_text (snd kv)) kvs)
       @ ''}''"

definition example_marshal :: "Document \<Rightarrow> error + byte list" where
  "example_marshal doc =
     Inr (bytes_of (json_text (VObj ((''_id'', VStr (doc_ID doc)) # doc_Data doc))))"

definition example_compress :: "byte list \<Rightarrow> error + byte list" where
  "example_compress bs = Inr bs"

definition example_decompress :: "byte list \<Rightarrow> error + byte list" where
  "example_decompress bs = Inr bs"


section \<open>Write-ahead log replay\<close>

text \<open>
  Modelled from the spec: the write-ahead log (\<^verbatim>\<open>WALEntry\<close>, \<^verbatim>\<open>WALManager.Replay\<close>)
  and the database manager are not among the source files; \<^verbatim>\<open>LoadAllDatabases\<close> only
  calls \<^verbatim>\<open>Replay\<close>. After the spec, an entry carries a sequence number, an operation
  kind, the database, and where they apply the collection, the document id and a payload:
  the full document for insert and update, the schema for create_collection, the index
  and field names for create_index. Entries are applied in ascending sequence, and every
  entry must apply cleanly or the replay fails. insert checks that the document exists
  and create_database, create_collection and create_index check that the entity exists,
  and are no-ops then; update and delete go by the document id, through the collection's
  \<open>Update\<close> and \<open>Delete\<close>. The spec does not say whether an update or a delete of a
  document that is not there is passed over or ends the replay: \<open>skipMissing\<close> chooses.
  \<open>uuids\<close> gives the id \<open>Insert\<close> would generate for the entry of a sequence number.
\<close>

datatype WALOp =
    WALOpCreateDatabase
  | WALOpDeleteDatabase
  | WALOpCreateCollection
  | WALOpCreateIndex
  | WALOpInsert
  | WALOpUpdate
  | WALOpDelete

datatype WALPayload =
    NoPayload
  | DocumentPayload Document
  | SchemaPayload Schema
  | IndexPayload string string

record WALEntry =
  wal_Sequence :: nat
  wal_Operation :: WALOp
  wal_Database :: string
  wal_Collection :: string
  wal_DocumentID :: string
  wal_Data :: WALPayload

record DatabaseManager =
  dm_Databases :: "(string \<times> Database) list"

definition NewDatabaseManager :: DatabaseManager where
  "NewDatabaseManager = \<lparr>dm_Databases = []\<rparr>"

definition onDatabase ::
  "DatabaseManager \<Rightarrow> string \<Rightarrow> (Database \<Rightarrow> error option \<times> Database)
     \<Rightarrow> error + DatabaseManager" where
  "onDatabase dm dbName f =
     (case map_of (dm_Databases dm) dbName of
        None \<Rightarrow> Inl (DatabaseNotExist dbName)
      | Some db \<Rightarrow>
          (case f db of
             (Some e, db') \<Rightarrow> Inl e
           | (None, db') \<Rightarrow> Inr (dm\<lparr>dm_Databases := AList.update dbName db' (dm_Databases dm)\<rparr>)))"

definition onCollection ::
  "DatabaseManager \<Rightarrow> string \<Rightarrow> string \<Rightarrow> (Collection \<Rightarrow> error option \<times> Collection)
     \<Rightarrow> error + DatabaseManager" where
  "onCollection dm dbName collName f =
     onDatabase dm dbName
       (\<lambda>db. case map_of (db_Collections db) collName of
                None \<Rightarrow> (Some (CollectionNotExist collName), db)
              | Some coll \<Rightarrow>
                  (case f coll of
                     (e, coll') \<Rightarrow>
                       (e, db\<lparr>db_Collections := AList.update collName coll' (db_Collections db)\<rparr>)))"

definition applyEntry ::
  "(Value \<Rightarrow> FieldType \<Rightarrow> bool) \<Rightarrow> (nat \<Rightarrow> string) \<Rightarrow> bool \<Rightarrow> DatabaseManager \<Rightarrow> WALEntry
     \<Rightarrow> error + DatabaseManager" where
  "applyEntry vt uuids skipMissing dm entry =
     (case wal_Operation entry of
        WALOpCreateDatabase \<Rightarrow>
          if map_of (dm_Databases dm) (wal_Database entry) \<noteq> None then Inr dm
          else
            Inr (dm\<lparr>dm_Databases :=
                      AList.update (wal_Database entry) (NewDatabase (wal_Database entry))
                        (dm_Databases dm)\<rparr>)
      | WALOpDeleteDatabase \<Rightarrow>
          Inr (dm\<lparr>dm_Databases := AList.delete (wal_Database entry) (dm_Databases dm)\<rparr>)
      | WALOpCreateCollection \<Rightarrow>
          onDatabase dm (wal_Database entry)
            (\<lambda>db. if map_of (db_Collections db) (wal_Collection entry) \<noteq> None then (None, db)
                  else
                    CreateCollection db (wal_Collection entry)
                      (case wal_Data entry of SchemaPayload s \<Rightarrow> Some s | _ \<Rightarrow> None))
      | WALOpCreateIndex \<Rightarrow>
          (case wal_Data entry of
             IndexPayload indexName fieldName \<Rightarrow>
               onCollection dm (wal_Database entry) (wal_Collection entry)
                 (\<lambda>coll. if map_of (coll_Indexes coll) indexName \<noteq> None then (None, coll)
                         else CreateIndex coll indexName fieldName)
           | _ \<Rightarrow> Inl MissingPayload)
      | WALOpInsert \<Rightarrow>
          (case wal_Data entry of
             DocumentPayload doc \<Rightarrow>
               onCollection dm (wal_Database entry) (wal_Collection entry)
                 (\<lambda>coll. if map_of (coll_Documents coll) (doc_ID doc) \<noteq> None then (None, coll)
                         else Insert vt (uuids (wal_Sequence entry)) coll doc)
           | _ \<Rightarrow> Inl MissingPayload)
      | WALOpUpdate \<Rightarrow>
          (case wal_Data entry of
             DocumentPayload doc \<Rightarrow>
               onCollection dm (wal_Database entry) (wal_Collection entry)
                 (\<lambda>coll. if skipMissing
                              \<and> map_of (coll_Documents coll) (wal_DocumentID entry) = None
                           then (None, coll)
                         else Update vt coll (wal_DocumentID entry) (doc_Data doc))
           | _ \<Rightarrow> Inl MissingPayload)
      | WALOpDelete \<Rightarrow>
          onCollection dm (wal_Database entry) (wal_Collection entry)
            (\<lambda>coll. if skipMissing \<and> map_of (coll_Documents coll) (wal_DocumentID entry) = None
                      then (None, coll)
                    else Delete coll (wal_DocumentID entry)))"

fun Replay ::
  "(Value \<Rightarrow> FieldType \<Rightarrow> bool) \<Rightarrow> (nat \<Rightarrow> string) \<Rightarrow> bool \<Rightarrow> DatabaseManager
     \<Rightarrow> WALEntry list \<Rightarrow> error + DatabaseManager" where
  "Replay vt uuids skipMissing dm [] = Inr dm"
| "Replay vt uuids skipMissing dm (entry # entries) =
     (case applyEntry vt uuids skipMissing dm entry of
        Inl e \<Rightarrow> Inl e
      | Inr dm' \<Rightarrow> Replay vt uuids skipMissing dm' entries)"


text \<open>
  \<open>guarded\<close> holds of the entries whose replay is behind an existence check: the three
  creations, and an insert whose document carries its id (an insert without one is given
  a new id at every replay). \<open>present\<close> is the condition under which these checks make an
  entry a no-op. \<open>dm_grows\<close> relates a state to one that has at least its databases,
  collections, document ids and index names.
\<close>

definition guarded :: "WALEntry \<Rightarrow> bool" where
  "guarded entry =
     (case wal_Operation entry of
        WALOpCreateDatabase \<Rightarrow> True
      | WALOpCreateCollection \<Rightarrow> True
      | WALOpCreateIndex \<Rightarrow> True
      | WALOpInsert \<Rightarrow> (case wal_Data entry of DocumentPayload doc \<Rightarrow> doc_ID doc \<noteq> [] | _ \<Rightarrow> True)
      | _ \<Rightarrow> False)"

definition lookupCollection :: "DatabaseManager \<Rightarrow> string \<Rightarrow> string \<Rightarrow> Collection option" where
  "lookupCollection dm dbName collName =
     (case map_of (dm_Databases dm) dbName of
        None \<Rightarrow> None
      | Some db \<Rightarrow> map_of (db_Collections db) collName)"

definition present :: "DatabaseManager \<Rightarrow> WALEntry \<Rightarrow> bool" where
  "present dm entry =
     (case wal_Operation entry of
        WALOpCreateDatabase \<Rightarrow> map_of (dm_Databases dm) (wal_Database entry) \<noteq> None
      | WALOpCreateCollection \<Rightarrow>
          lookupCollection dm (wal_Database entry) (wal_Collection entry) \<noteq> None
      | WALOpCreateIndex \<Rightarrow>
          (case wal_Data entry of
             IndexPayload indexName fieldName \<Rightarrow>
               (case lookupCollection dm (wal_Database entry) (wal_Collection entry) of
                  None \<Rightarrow> False
                | Some coll \<Rightarrow> map_of (coll_Indexes coll) indexName \<noteq> None)
           | _ \<Rightarrow> False)
      | WALOpInsert \<Rightarrow>
          (case wal_Data entry of
             DocumentPayload doc \<Rightarrow>
               (case lookupCollection dm (wal_Database entry) (wal_Collection entry) of
                  None \<Rightarrow> False
                | Some coll \<Rightarrow> map_of (coll_Documents coll) (doc_ID doc) \<noteq> None)
           | _ \<Rightarrow> False)
      | _ \<Rightarrow> False)"

definition coll_grows :: "Collection \<Rightarrow> Collection \<Rightarrow> bool" where
  "coll_grows c c' =
     (dom (map_of (coll_Documents c)) \<subseteq> dom (map_of (coll_Documents c'))
      \<and> dom (map_of (coll_Indexes c)) \<subseteq> dom (map_of (coll_Indexes c')))"

definition db_grows :: "Database \<Rightarrow> Database \<Rightarrow> bool" where
  "db_grows db db' =
     (\<forall>cn c. map_of (db_Collections db) cn = Some c
        \<longrightarrow> (\<exists>c'. map_of (db_Collections db') cn = Some c' \<and> coll_grows c c'))"

definition dm_grows :: "DatabaseManager \<Rightarrow> DatabaseManager \<Rightarrow> bool" where
  "dm_grows dm dm' =
     (\<forall>dn db. map_of (dm_Databases dm) dn = Some db
        \<longrightarrow> (\<exists>db'. map_of (dm_Databases dm') dn = Some db' \<and> db_grows db db'))"

section \<open>Iteration order\<close>

text \<open>
  Two association lists are the same Go map when their keys are distinct and they hold the
  same entries; two collections are the same state when their documents and indexes are
  the same maps. \<open>indexesOn\<close> lists the indexes on a field.
\<close>

definition same_map :: "('k \<times> 'v) list \<Rightarrow> ('k \<times> 'v) list \<Rightarrow> bool" where
  "same_map xs ys = (distinct (map fst xs) \<and> distinct (map fst ys) \<and> set xs = set ys)"

definition same_state :: "Collection \<Rightarrow> Collection \<Rightarrow> bool" where
  "same_state c1 c2 =
     (coll_Name c1 = coll_Name c2 \<and> coll_Schema c1 = coll_Schema c2
      \<and> same_map (coll_Documents c1) (coll_Documents c2)
      \<and> same_map (coll_Indexes c1) (coll_Indexes c2))"

definition indexesOn :: "Collection \<Rightarrow> string \<Rightarrow> (string \<times> Index) list" where
  "indexesOn c field = filter (\<lambda>ni. idx_FieldName (snd ni) = field) (coll_Indexes c)"

section \<open>States used in the concrete runs\<close>

definition vt_example :: "Value \<Rightarrow> FieldType \<Rightarrow> bool" where
  "vt_example = ValidateType_spec (\<lambda>s. False)"

definition ada :: Document where
  "ada = \<lparr>doc_ID = ''u1'', doc_Data = [(''name'', VStr ''Ada'')]\<rparr>"

definition bob :: Document where
  "bob = \<lparr>doc_ID = ''u2'', doc_Data = [(''name'', VStr ''Bob''), (''age'', VNum 40)]\<rparr>"

definition users_ada :: Collection where
  "users_ada = snd (Insert vt_example [] (NewCollection ''users'' None) ada)"

definition users_ada_bob :: Collection where
  "users_ada_bob = snd (Insert vt_example [] users_ada bob)"

definition name_schema :: Schema where
  "name_schema = \<lparr>sch_Fields = [(''name'', \<lparr>fld_Type = TypeString, fld_Required = True\<rparr>)]\<rparr>"

definition mail1 :: Document where
  "mail1 = \<lparr>doc_ID = ''d1'', doc_Data = [(''email'', VStr ''a@x'')]\<rparr>"

definition mail2 :: Document where
  "mail2 = \<lparr>doc_ID = ''d2'', doc_Data = [(''email'', VStr ''a@x'')]\<rparr>"

definition mails :: Collection where
  "mails =
     snd (CreateIndex
            (snd (Insert vt_example []
                    (snd (Insert vt_example [] (NewCollection ''users'' None) mail1)) mail2))
            ''by_email'' ''email'')"

text \<open>The directory of a collection on a disk, for the runs of save and load.\<close>

definition collectionDir :: "Disk \<Rightarrow> string \<Rightarrow> string \<Rightarrow> CollectionDir" where
  "collectionDir disk dbName collName =
     (case map_of disk dbName of
        None \<Rightarrow> emptyDir
      | Some d \<Rightarrow> (case map_of (dbdir_collections d) collName of None \<Rightarrow> emptyDir | Some cd \<Rightarrow> cd))"

definition example_db :: Database where
  "example_db = \<lparr>db_Name = ''example'', db_Collections = [(''users'', users_ada_bob)]\<rparr>"

definition example_db_deleted :: Database where
  "example_db_deleted =
     \<lparr>db_Name = ''example'', db_Collections = [(''users'', snd (Delete users_ada_bob ''u2''))]\<rparr>"

definition disk_once :: Disk where
  "disk_once = snd (SaveDatabase FormatBinary example_marshal example_compress [] example_db)"

definition disk_twice :: Disk where
  "disk_twice =
     snd (SaveDatabase FormatBinary example_marshal example_compress disk_once example_db_deleted)"

text \<open>A reader over a data file in which one byte of the payload was changed.\<close>

definition tampered_reader :: BinaryCollectionReader where
  "tampered_reader =
     \<lparr>r_dataFile = [72, 67, 65, 67, 1, 0, 1, 0, 8, 0, 0, 0, 0, 0, 0, 0, 25, 0, 0, 0, 25, 0, 0, 0, 180, 128, 223, 254, 123, 34, 95, 105, 100, 34, 58, 34, 117, 49, 34, 44, 34, 110, 97, 109, 101, 34, 58, 34, 66, 100, 97, 34, 125],
        r_index = [(''u1'', \<lparr>ent_Offset = 8, ent_Size = 25, ent_CompressedSize = 25,
                               ent_Checksum = 4276060340\<rparr>)]\<rparr>"

text \<open>
  A document whose serialized form has exactly \<open>2 ^ 32\<close> bytes: a \<^verbatim>\<open>name\<close> of
  4294967274 letters between the 20 bytes before it and the 2 bytes after it.
\<close>

definition huge :: Document where
  "huge = \<lparr>doc_ID = ''u1'', doc_Data = [(''name'', VStr (replicate 4294967274 (CHR ''a'')))]\<rparr>"

definition huge_json :: "byte list" where
  "huge_json =
     [123, 34, 95, 105, 100, 34, 58, 34, 117, 49, 34, 44, 34, 110, 97, 109, 101, 34, 58, 34]
       @ replicate 4294967274 97 @ [34, 125]"

text \<open>The same collection with both of its maps iterated in the opposite order.\<close>

definition reversed :: "Collection \<Rightarrow> Collection" where
  "reversed c = c\<lparr>coll_Documents := rev (coll_Documents c), coll_Indexes := rev (coll_Indexes c)\<rparr>"

definition mails_unindexed :: Collection where
  "mails_unindexed =
     snd (Insert vt_example [] (snd (Insert vt_example [] (NewCollection ''users'' None) mail1)) mail2)"

definition mails_two_indexes :: Collection where
  "mails_two_indexes =
     snd (CreateIndex
       (snd (Delete
         (snd (Insert vt_example []
           (snd (CreateIndex (snd (Insert vt_example [] (NewCollection ''users'' None) mail1))
                   ''by_email'' ''email''))
           mail2))
         ''d2''))
       ''by_email2'' ''email'')"

definition email_query :: Query where
  "email_query =
     \<lparr>qry_Filters = [\<lparr>flt_Field = ''email'', flt_Operator = ''eq'', flt_Value = VStr ''a@x''\<rparr>],
        qry_Limit = 0, qry_Skip = 0\<rparr>"


text \<open>Two logs on one collection, and the states their replays reach.\<close>

definition uuids_example :: "nat \<Rightarrow> string" where
  "uuids_example n = ''generated-'' @ digits n"

definition wal_entry :: "nat \<Rightarrow> WALOp \<Rightarrow> string \<Rightarrow> WALPayload \<Rightarrow> WALEntry" where
  "wal_entry n operation docID payload =
     \<lparr>wal_Sequence = n, wal_Operation = operation, wal_Database = ''app'',
        wal_Collection = ''users'', wal_DocumentID = docID, wal_Data = payload\<rparr>"

definition setup_log :: "WALEntry list" where
  "setup_log =
     [wal_entry 1 WALOpCreateDatabase [] NoPayload,
      wal_entry 2 WALOpCreateCollection [] NoPayload,
      wal_entry 3 WALOpInsert ''d1'' (DocumentPayload mail1),
      wal_entry 4 WALOpInsert ''d2'' (DocumentPayload mail2),
      wal_entry 5 WALOpCreateIndex [] (IndexPayload ''by_email'' ''email'')]"

definition churn_log :: "WALEntry list" where
  "churn_log =
     [wal_entry 6 WALOpDelete ''d1'' NoPayload,
      wal_entry 7 WALOpInsert ''d1'' (DocumentPayload mail1),
      wal_entry 8 WALOpDelete ''d2'' NoPayload]"

definition wal_dm :: "Collection \<Rightarrow> DatabaseManager" where
  "wal_dm c =
     \<lparr>dm_Databases = [(''app'', \<lparr>db_Name = ''app'', db_Collections = [(''users'', c)]\<rparr>)]\<rparr>"

definition users_once :: Collection where
  "users_once =
     \<lparr>coll_Name = ''users'', coll_Schema = None, coll_Documents = [(''d1'', mail1)],
        coll_Indexes =
          [(''_id'', \<lparr>idx_Name = ''_id'', idx_FieldName = ''_id'', idx_Data = [(''d1'', ''d1'')]\<rparr>),
           (''by_email'', \<lparr>idx_Name = ''by_email'', idx_FieldName = ''email'', idx_Data = []\<rparr>)]\<rparr>"

definition users_again :: Collection where
  "users_again =
     \<lparr>coll_Name = ''users'', coll_Schema = None, coll_Documents = [(''d1'', mail1)],
        coll_Indexes =
          [(''_id'', \<lparr>idx_Name = ''_id'', idx_FieldName = ''_id'', idx_Data = [(''d1'', ''d1'')]\<rparr>),
           (''by_email'', \<lparr>idx_Name = ''by_email'', idx_FieldName = ''email'',
                           idx_Data = [(''a@x'', ''d1'')]\<rparr>)]\<rparr>"

section \<open>Properties\<close>

lemmas run_defs =
  Insert_def assignID_def NewCollection_def NewIndex_def ValidateDocument_def Let_def
  AddToIndex_def RemoveFromIndex_def GetValue_def CreateIndex_def Delete_def Update_def
  Clone_def FindByID_def Index_Find_def

subsection \<open>Filters\<close>

lemma matchesFilter_no_field:
  "GetValue doc (flt_Field f) = None \<Longrightarrow> \<not> matchesFilter doc f"
  by (simp add: matchesFilter_def)

lemma matchesFilter_unknown_op:
  "flt_Operator f \<notin> {''eq'', ''ne'', ''gt'', ''gte'', ''lt'', ''lte'', ''in''}
     \<Longrightarrow> \<not> matchesFilter doc f"
  by (simp add: matchesFilter_def split: option.splits)

lemma set_skipLimit: "set (skipLimit q rs) \<subseteq> set rs"
  by (auto simp: skipLimit_def Let_def dest: in_set_dropD in_set_takeD)

lemma set_scanAll: "d \<in> set (scanAll docs fs) \<Longrightarrow> matchesAllFilters d fs"
  by (auto simp: scanAll_def Clone_def)

lemma Find_single_ne:
  assumes "qry_Filters q = [g]" and "flt_Operator g = ''ne''" and "d \<in> set (Find c q)"
  shows "GetValue d (flt_Field g) \<noteq> None"
proof -
  from assms have "d \<in> set (skipLimit q (scanAll (coll_Documents c) [g]))"
    by (simp add: Find_def)
  then have "matchesAllFilters d [g]"
    using set_skipLimit set_scanAll by blast
  then have "matchesFilter d g"
    by (simp split: if_splits)
  then show ?thesis
    using matchesFilter_no_field by blast
qed

text \<open>
  C9. A filter never matches a document that lacks the filter's field, whatever the
  operator (\<open>ne\<close> and \<open>in\<close> included); a filter whose operator is none of eq, ne, gt,
  gte, lt, lte, in matches no document; so \<open>Find\<close> with the single filter \<open>ne\<close> on a
  field returns no document that lacks the field.
\<close>

theorem matchesFilter_needs_field:
  "(GetValue doc (flt_Field f) = None \<longrightarrow> \<not> matchesFilter doc f)
   \<and> (flt_Operator f \<notin> {''eq'', ''ne'', ''gt'', ''gte'', ''lt'', ''lte'', ''in''}
        \<longrightarrow> \<not> matchesFilter doc f)
   \<and> (qry_Filters q = [g] \<and> flt_Operator g = ''ne''
        \<longrightarrow> (\<forall>d \<in> set (Find c q). GetValue d (flt_Field g) \<noteq> None))"
  using matchesFilter_no_field matchesFilter_unknown_op Find_single_ne by blast

theorem matchesFilter_needs_field_witness:
  "GetValue ada ''age'' = None
   \<and> \<not> matchesFilter ada \<lparr>flt_Field = ''age'', flt_Operator = ''ne'', flt_Value = VNum 30\<rparr>
   \<and> \<not> matchesFilter ada \<lparr>flt_Field = ''age'', flt_Operator = ''in'', flt_Value = VArr [VNum 30]\<rparr>
   \<and> \<not> matchesFilter ada \<lparr>flt_Field = ''name'', flt_Operator = ''like'', flt_Value = VStr ''Ada''\<rparr>
   \<and> Find users_ada_bob
        \<lparr>qry_Filters = [\<lparr>flt_Field = ''age'', flt_Operator = ''ne'', flt_Value = VNum 30\<rparr>],
           qry_Limit = 0, qry_Skip = 0\<rparr> = [bob]
   \<and> GetValue bob ''age'' = Some (VNum 40)"
proof -
  have find: "Find users_ada_bob
        \<lparr>qry_Filters = [\<lparr>flt_Field = ''age'', flt_Operator = ''ne'', flt_Value = VNum 30\<rparr>],
           qry_Limit = 0, qry_Skip = 0\<rparr> = [bob]"
    by (simp add: Find_def users_ada_bob_def users_ada_def ada_def bob_def run_defs
        updateIndexes.simps scanAll_def skipLimit_def matchesFilter_def itoa_def)
  have none: "GetValue ada ''age'' = None"
    by (simp add: ada_def GetValue_def)
  show ?thesis
    using matchesFilter_needs_field [of ada
        "\<lparr>flt_Field = ''age'', flt_Operator = ''ne'', flt_Value = VNum 30\<rparr>"
        "\<lparr>qry_Filters = [\<lparr>flt_Field = ''age'', flt_Operator = ''ne'', flt_Value = VNum 30\<rparr>],
           qry_Limit = 0, qry_Skip = 0\<rparr>"
        "\<lparr>flt_Field = ''age'', flt_Operator = ''ne'', flt_Value = VNum 30\<rparr>" users_ada_bob]
      matchesFilter_needs_field [of ada
        "\<lparr>flt_Field = ''age'', flt_Operator = ''in'', flt_Value = VArr [VNum 30]\<rparr>"]
      matchesFilter_needs_field [of ada
        "\<lparr>flt_Field = ''name'', flt_Operator = ''like'', flt_Value = VStr ''Ada''\<rparr>"]
      find none
    by (simp add: bob_def GetValue_def)
qed

subsection \<open>Comparison of values\<close>

text \<open>
  C4. The range operators compare the printed forms of the two operands bytewise, also
  when both are numbers: 9 against 30 compares as greater, so \<open>lt\<close> does not match and
  \<open>gt\<close> does.
\<close>

theorem compareValues_is_lexicographic_on_numbers:
  "compareValues (VNum 9) (VNum 30) = 1
   \<and> \<not> matchesFilter \<lparr>doc_ID = ''u3'', doc_Data = [(''age'', VNum 9)]\<rparr>
         \<lparr>flt_Field = ''age'', flt_Operator = ''lt'', flt_Value = VNum 30\<rparr>
   \<and> matchesFilter \<lparr>doc_ID = ''u3'', doc_Data = [(''age'', VNum 9)]\<rparr>
         \<lparr>flt_Field = ''age'', flt_Operator = ''gt'', flt_Value = VNum 30\<rparr>"
  by (simp add: matchesFilter_def GetValue_def compareValues_def itoa_def)

subsection \<open>Index updates\<close>

lemma AddToIndex_nil: "fst (AddToIndex idx doc) = None"
  by (simp add: AddToIndex_def split: option.splits)

lemma RemoveFromIndex_nil: "fst (RemoveFromIndex idx doc) = None"
  by (simp add: RemoveFromIndex_def split: option.splits)

lemma updateIndexes_nil: "fst (updateIndexes idxs oldDoc newDoc) = None"
proof (induction idxs)
  case Nil
  show ?case by simp
next
  case (Cons a rest)
  obtain n idx where a: "a = (n, idx)" by (cases a)
  show ?case
    using Cons.IH
    by (auto simp add: a split_beta AddToIndex_nil RemoveFromIndex_nil split: option.splits)
qed

lemma applyUpdates_error: "fst (applyUpdates data ups) \<noteq> Some (IndexUpdateFailed e)"
  by (induction data ups rule: applyUpdates.induct) auto

lemma applyUpdates_Some: "applyUpdates data ups = (Some x, data') \<Longrightarrow> x = CannotUpdateID"
  by (induction data ups rule: applyUpdates.induct) (auto split: if_splits)

lemma Insert_no_index_failure: "fst (Insert vt uuid c doc) \<noteq> Some (IndexUpdateFailed e)"
  by (simp add: Insert_def Let_def split_beta updateIndexes_nil split: option.splits)

lemma Update_no_index_failure: "fst (Update vt c docID ups) \<noteq> Some (IndexUpdateFailed e)"
  by (auto simp add: Update_def Let_def split_beta updateIndexes_nil applyUpdates_error
      split: option.splits)

lemma Delete_no_index_failure: "fst (Delete c docID) \<noteq> Some (IndexUpdateFailed e)"
  by (simp add: Delete_def Let_def split_beta updateIndexes_nil split: option.splits)

lemma Insert_succeeds:
  assumes "map_of (coll_Documents c) (doc_ID (assignID uuid doc)) = None"
    and "ValidateDocument vt (coll_Schema c) (assignID uuid doc) = None"
  shows "fst (Insert vt uuid c doc) = None"
    and "map_of (coll_Documents (snd (Insert vt uuid c doc))) (doc_ID (assignID uuid doc))
           = Some (assignID uuid doc)"
  using assms
  by (simp_all add: Insert_def Let_def split_beta updateIndexes_nil update_conv'
      split: option.splits)

text \<open>
  C10. \<open>AddToIndex\<close> and \<open>RemoveFromIndex\<close> return nil for every index and document, so
  \<open>updateIndexes\<close> returns nil; \<open>Insert\<close>, \<open>Update\<close> and \<open>Delete\<close> never return through
  their index-failure branch; and an \<open>Insert\<close> that passes the duplicate-id check and the
  schema validation returns nil with the document stored.
\<close>

theorem index_updates_never_fail:
  "fst (AddToIndex idx doc) = None
   \<and> fst (RemoveFromIndex idx doc) = None
   \<and> fst (updateIndexes idxs oldDoc newDoc) = None
   \<and> fst (Insert vt uuid c doc) \<noteq> Some (IndexUpdateFailed e)
   \<and> fst (Update vt c docID ups) \<noteq> Some (IndexUpdateFailed e)
   \<and> fst (Delete c docID) \<noteq> Some (IndexUpdateFailed e)
   \<and> (map_of (coll_Documents c) (doc_ID (assignID uuid doc)) = None
        \<and> ValidateDocument vt (coll_Schema c) (assignID uuid doc) = None
      \<longrightarrow> fst (Insert vt uuid c doc) = None
          \<and> map_of (coll_Documents (snd (Insert vt uuid c doc))) (doc_ID (assignID uuid doc))
               = Some (assignID uuid doc))"
  by (simp add: AddToIndex_nil RemoveFromIndex_nil updateIndexes_nil Insert_no_index_failure
      Update_no_index_failure Delete_no_index_failure Insert_succeeds)

theorem index_updates_never_fail_witness:
  "map_of (coll_Documents (NewCollection ''users'' (Some name_schema)))
       (doc_ID (assignID ''id-1'' \<lparr>doc_ID = [], doc_Data = [(''name'', VStr ''Ada'')]\<rparr>)) = None
   \<and> ValidateDocument vt_example (coll_Schema (NewCollection ''users'' (Some name_schema)))
       (assignID ''id-1'' \<lparr>doc_ID = [], doc_Data = [(''name'', VStr ''Ada'')]\<rparr>) = None
   \<and> fst (Insert vt_example ''id-1'' (NewCollection ''users'' (Some name_schema))
            \<lparr>doc_ID = [], doc_Data = [(''name'', VStr ''Ada'')]\<rparr>) = None
   \<and> map_of (coll_Documents
               (snd (Insert vt_example ''id-1'' (NewCollection ''users'' (Some name_schema))
                       \<lparr>doc_ID = [], doc_Data = [(''name'', VStr ''Ada'')]\<rparr>))) ''id-1''
       = Some \<lparr>doc_ID = ''id-1'', doc_Data = [(''name'', VStr ''Ada'')]\<rparr>"
proof -
  have fresh: "map_of (coll_Documents (NewCollection ''users'' (Some name_schema)))
       (doc_ID (assignID ''id-1'' \<lparr>doc_ID = [], doc_Data = [(''name'', VStr ''Ada'')]\<rparr>)) = None"
    by (simp add: NewCollection_def)
  have valid: "ValidateDocument vt_example (coll_Schema (NewCollection ''users'' (Some name_schema)))
       (assignID ''id-1'' \<lparr>doc_ID = [], doc_Data = [(''name'', VStr ''Ada'')]\<rparr>) = None"
    by (simp add: NewCollection_def name_schema_def ValidateDocument_def assignID_def
        GetValue_def vt_example_def ValidateType_spec_def TypeString_def)
  show ?thesis
    using fresh valid
      index_updates_never_fail [where vt = vt_example and uuid = "''id-1''"
        and c = "NewCollection ''users'' (Some name_schema)"
        and doc = "\<lparr>doc_ID = [], doc_Data = [(''name'', VStr ''Ada'')]\<rparr>"]
    by (simp add: assignID_def)
qed

subsection \<open>Update and the key \<^verbatim>\<open>_id\<close>\<close>

lemma Update_schema_failure_restores:
  assumes "fst (Update vt c docID ups) = Some (SchemaValidationFailed e)"
  shows "map_of (coll_Documents (snd (Update vt c docID ups))) = map_of (coll_Documents c)"
    and "FindByID (snd (Update vt c docID ups)) docID = FindByID c docID"
    and "coll_Indexes (snd (Update vt c docID ups)) = coll_Indexes c"
proof -
  obtain doc0 where doc0: "map_of (coll_Documents c) docID = Some doc0"
    using assms by (cases "map_of (coll_Documents c) docID") (auto simp: Update_def)
  obtain err data where ap: "applyUpdates (doc_Data doc0) ups = (err, data)"
    by (cases "applyUpdates (doc_Data doc0) ups")
  have noerr: "err = None"
  proof (cases err)
    case None
    then show ?thesis .
  next
    case (Some x)
    have "x = CannotUpdateID"
      using ap Some applyUpdates_Some by blast
    then show ?thesis
      using assms doc0 ap Some by (simp add: Update_def Clone_def)
  qed
  have invalid: "ValidateDocument vt (coll_Schema c) (doc0\<lparr>doc_Data := data\<rparr>) \<noteq> None"
    using assms doc0 ap noerr updateIndexes_nil
    by (auto simp add: Update_def Clone_def Let_def split_beta split: option.splits)
  have m: "(map_of (coll_Documents c))(docID \<mapsto> doc0) = map_of (coll_Documents c)"
    using doc0 by (simp add: fun_upd_idem)
  show "map_of (coll_Documents (snd (Update vt c docID ups))) = map_of (coll_Documents c)"
    using doc0 ap noerr invalid m
    by (auto simp add: Update_def Clone_def Let_def update_conv' split: option.splits)
  then show "FindByID (snd (Update vt c docID ups)) docID = FindByID c docID"
    by (simp add: FindByID_def)
  show "coll_Indexes (snd (Update vt c docID ups)) = coll_Indexes c"
    using doc0 ap noerr invalid
    by (auto simp add: Update_def Clone_def Let_def split: option.splits)
qed

text \<open>
  C1. \<open>Update\<close> with the updates \<^verbatim>\<open>name\<close> and \<^verbatim>\<open>_id\<close>, visited in this order, returns
  the error for \<^verbatim>\<open>_id\<close> and leaves the stored document with the new \<^verbatim>\<open>name\<close>:
  \<open>FindByID\<close> no longer returns the pre-image. (A failed schema validation does restore
  it: \<open>Update_schema_failure_restores\<close>.)
\<close>

theorem Update_id_key_keeps_earlier_writes:
  "fst (Update vt users_ada ''u1'' [(''name'', VStr ''Bob''), (''_id'', VStr ''u9'')])
     = Some CannotUpdateID
   \<and> FindByID users_ada ''u1'' = Inr \<lparr>doc_ID = ''u1'', doc_Data = [(''name'', VStr ''Ada'')]\<rparr>
   \<and> FindByID
        (snd (Update vt users_ada ''u1'' [(''name'', VStr ''Bob''), (''_id'', VStr ''u9'')]))
        ''u1''
     = Inr \<lparr>doc_ID = ''u1'', doc_Data = [(''name'', VStr ''Bob'')]\<rparr>"
  by (simp add: users_ada_def ada_def run_defs)

subsection \<open>User indexes and documents that share a key\<close>

text \<open>
  C3. Two documents with the same \<^verbatim>\<open>email\<close> are inserted into a fresh collection and
  the index \<^verbatim>\<open>by_email\<close> is created; before the deletion the index maps the shared key
  to an id. Deleting the first document succeeds and removes the key: the second
  document is still in the collection with its \<^verbatim>\<open>email\<close>, and the index has no entry
  for it.
\<close>

theorem Delete_removes_shared_index_key:
  "map_option (\<lambda>idx. Index_Find idx (VStr ''a@x'')) (map_of (coll_Indexes mails) ''by_email'')
     = Some (Some ''d2'')
   \<and> fst (Delete mails ''d1'') = None
   \<and> map_of (coll_Documents (snd (Delete mails ''d1''))) ''d2'' = Some mail2
   \<and> GetValue mail2 ''email'' = Some (VStr ''a@x'')
   \<and> map_option (\<lambda>idx. Index_Find idx (VStr ''a@x''))
        (map_of (coll_Indexes (snd (Delete mails ''d1''))) ''by_email'')
     = Some None"
  by (simp add: mails_def mail1_def mail2_def vt_example_def run_defs)


subsection \<open>Saving twice\<close>

lemma users_ada_bob_eq:
  "users_ada_bob =
     \<lparr>coll_Name = ''users'', coll_Schema = None,
        coll_Documents = [(''u1'', ada), (''u2'', bob)],
        coll_Indexes =
          [(''_id'', \<lparr>idx_Name = ''_id'', idx_FieldName = ''_id'',
                      idx_Data = [(''u1'', ''u1''), (''u2'', ''u2'')]\<rparr>)]\<rparr>"
  by (simp add: users_ada_bob_def users_ada_def ada_def bob_def run_defs)

lemma users_deleted_eq:
  "snd (Delete users_ada_bob ''u2'') =
     \<lparr>coll_Name = ''users'', coll_Schema = None, coll_Documents = [(''u1'', ada)],
        coll_Indexes =
          [(''_id'', \<lparr>idx_Name = ''_id'', idx_FieldName = ''_id'',
                      idx_Data = [(''u1'', ''u1'')]\<rparr>)]\<rparr>"
  by (simp add: users_ada_bob_eq ada_def bob_def run_defs)

lemma marshal_ada:
  "example_marshal ada =
     Inr [123, 34, 95, 105, 100, 34, 58, 34, 117, 49, 34, 44, 34, 110, 97, 109,
          101, 34, 58, 34, 65, 100, 97, 34, 125]"
  by (simp add: example_marshal_def ada_def bytes_of_def)

lemma marshal_bob:
  "example_marshal bob =
     Inr [123, 34, 95, 105, 100, 34, 58, 34, 117, 50, 34, 44, 34, 110, 97, 109,
          101, 34, 58, 34, 66, 111, 98, 34, 44, 34, 97, 103, 101, 34, 58, 52, 48, 125]"
  by (simp add: example_marshal_def bob_def bytes_of_def itoa_def)

lemma crc_ada:
  "ChecksumIEEE [123, 34, 95, 105, 100, 34, 58, 34, 117, 49, 34, 44, 34, 110, 97, 109,
          101, 34, 58, 34, 65, 100, 97, 34, 125] = 4276060340"
  by (simp add: ChecksumIEEE_def crc_byte_def crc_bit_def)

lemma crc_bob:
  "ChecksumIEEE [123, 34, 95, 105, 100, 34, 58, 34, 117, 50, 34, 44, 34, 110, 97, 109,
          101, 34, 58, 34, 66, 111, 98, 34, 44, 34, 97, 103, 101, 34, 58, 52, 48, 125] = 231599248"
  by (simp add: ChecksumIEEE_def crc_byte_def crc_bit_def)

lemma writer_fresh:
  "NewBinaryCollectionWriter
     \<lparr>dir_meta = m, dir_data = None, dir_idx = None, dir_indexes = ixs, dir_documents = ds\<rparr>
   = \<lparr>w_dataFile = [72, 67, 65, 67, 1, 0, 1, 0], w_pos = 8, w_offset = 8, w_index = []\<rparr>"
  by (simp add: NewBinaryCollectionWriter_def writeHeader_def file_Write_def LoadOffsetIndex_def
      PutUint32_def PutUint16_def CollectionMagic_def BinaryFormatVersion_def)

lemma write_ada_fresh:
  "WriteDocument example_marshal example_compress
     \<lparr>w_dataFile = [72, 67, 65, 67, 1, 0, 1, 0], w_pos = 8, w_offset = 8, w_index = []\<rparr> ada
   = Inr \<lparr>w_dataFile =
    [72, 67, 65, 67, 1, 0, 1, 0, 8, 0, 0, 0, 0, 0, 0, 0, 25, 0, 0, 0, 25, 0,
     0, 0, 180, 128, 223, 254, 123, 34, 95, 105, 100, 34, 58, 34, 117, 49,
     34, 44, 34, 110, 97, 109, 101, 34, 58, 34, 65, 100, 97, 34, 125],
    w_pos = 53, w_offset = 53,
    w_index =
      [(''u1'',
        \<lparr>ent_Offset = 8, ent_Size = 25, ent_CompressedSize = 25,
           ent_Checksum = 4276060340\<rparr>)]\<rparr>"
  by (simp add: WriteDocument_def marshal_ada example_compress_def crc_ada file_Write_def
      PutUint64_def PutUint32_def DocEntryHeaderSize_def) (simp add: ada_def)


lemma write_bob_fresh:
  "WriteDocument example_marshal example_compress
     \<lparr>w_dataFile =
    [72, 67, 65, 67, 1, 0, 1, 0, 8, 0, 0, 0, 0, 0, 0, 0, 25, 0, 0, 0, 25, 0,
     0, 0, 180, 128, 223, 254, 123, 34, 95, 105, 100, 34, 58, 34, 117, 49,
     34, 44, 34, 110, 97, 109, 101, 34, 58, 34, 65, 100, 97, 34, 125],
    w_pos = 53, w_offset = 53,
    w_index =
      [(''u1'',
        \<lparr>ent_Offset = 8, ent_Size = 25, ent_CompressedSize = 25,
           ent_Checksum = 4276060340\<rparr>)]\<rparr> bob
   = Inr \<lparr>w_dataFile =
    [72, 67, 65, 67, 1, 0, 1, 0, 8, 0, 0, 0, 0, 0, 0, 0, 25, 0, 0, 0, 25, 0,
     0, 0, 180, 128, 223, 254, 123, 34, 95, 105, 100, 34, 58, 34, 117, 49,
     34, 44, 34, 110, 97, 109, 101, 34, 58, 34, 65, 100, 97, 34, 125, 53, 0,
     0, 0, 0, 0, 0, 0, 34, 0, 0, 0, 34, 0, 0, 0, 144, 236, 205, 13, 123, 34,
     95, 105, 100, 34, 58, 34, 117, 50, 34, 44, 34, 110, 97, 109, 101, 34,
     58, 34, 66, 111, 98, 34, 44, 34, 97, 103, 101, 34, 58, 52, 48, 125],
    w_pos = 107, w_offset = 107,
    w_index =
      [(''u1'',
        \<lparr>ent_Offset = 8, ent_Size = 25, ent_CompressedSize = 25,
           ent_Checksum = 4276060340\<rparr>),
       (''u2'',
        \<lparr>ent_Offset = 53, ent_Size = 34, ent_CompressedSize = 34,
           ent_Checksum = 231599248\<rparr>)]\<rparr>"
  by (simp add: WriteDocument_def marshal_bob example_compress_def crc_bob file_Write_def
      PutUint64_def PutUint32_def DocEntryHeaderSize_def) (simp add: bob_def)

lemma idx_bytes_once:
  "SaveOffsetIndex [(''u1'',
        \<lparr>ent_Offset = 8, ent_Size = 25, ent_CompressedSize = 25,
           ent_Checksum = 4276060340\<rparr>),
       (''u2'',
        \<lparr>ent_Offset = 53, ent_Size = 34, ent_CompressedSize = 34,
           ent_Checksum = 231599248\<rparr>)]
   = [2, 0, 0, 0, 2, 0, 0, 0, 117, 49, 8, 0, 0, 0, 0, 0, 0, 0, 25, 0, 0,
        0, 25, 0, 0, 0, 180, 128, 223, 254, 2, 0, 0, 0, 117, 50, 53, 0, 0,
        0, 0, 0, 0, 0, 34, 0, 0, 0, 34, 0, 0, 0, 144, 236, 205, 13]"
  by (simp add: SaveOffsetIndex_def encodeEntry_def PutUint64_def PutUint32_def bytes_of_def)

lemma save_once:
  "SaveCollection FormatBinary example_marshal example_compress emptyDir users_ada_bob
   = (None, \<lparr>dir_meta = Some \<lparr>meta_Name = ''users'', meta_Schema = None,
        meta_Indexes = [(''_id'', ''_id'')], meta_Format = ''binary''\<rparr>,
    dir_data = Some [72, 67, 65, 67, 1, 0, 1, 0, 8, 0, 0, 0, 0, 0, 0, 0, 25, 0, 0, 0, 25, 0,
     0, 0, 180, 128, 223, 254, 123, 34, 95, 105, 100, 34, 58, 34, 117, 49,
     34, 44, 34, 110, 97, 109, 101, 34, 58, 34, 65, 100, 97, 34, 125, 53, 0,
     0, 0, 0, 0, 0, 0, 34, 0, 0, 0, 34, 0, 0, 0, 144, 236, 205, 13, 123, 34,
     95, 105, 100, 34, 58, 34, 117, 50, 34, 44, 34, 110, 97, 109, 101, 34,
     58, 34, 66, 111, 98, 34, 44, 34, 97, 103, 101, 34, 58, 52, 48, 125],
    dir_idx = Some [2, 0, 0, 0, 2, 0, 0, 0, 117, 49, 8, 0, 0, 0, 0, 0, 0, 0, 25, 0, 0,
        0, 25, 0, 0, 0, 180, 128, 223, 254, 2, 0, 0, 0, 117, 50, 53, 0, 0,
        0, 0, 0, 0, 0, 34, 0, 0, 0, 34, 0, 0, 0, 144, 236, 205, 13],
    dir_indexes =
      [(''_id'',
        \<lparr>ixd_Name = ''_id'', ixd_FieldName = ''_id'',
           ixd_Data = [(''u1'', ''u1''), (''u2'', ''u2'')]\<rparr>)],
    dir_documents = None\<rparr>)"
  by (simp add: SaveCollection_def users_ada_bob_eq emptyDir_def writer_fresh write_ada_fresh
      write_bob_fresh Flush_def idx_bytes_once SaveToDisk_def Serialize_def FormatBinary_def)

lemma idx_load_once:
  "LoadOffsetIndex (Some [2, 0, 0, 0, 2, 0, 0, 0, 117, 49, 8, 0, 0, 0, 0, 0, 0, 0, 25, 0, 0,
        0, 25, 0, 0, 0, 180, 128, 223, 254, 2, 0, 0, 0, 117, 50, 53, 0, 0,
        0, 0, 0, 0, 0, 34, 0, 0, 0, 34, 0, 0, 0, 144, 236, 205, 13])
   = Inr [(''u1'',
        \<lparr>ent_Offset = 8, ent_Size = 25, ent_CompressedSize = 25,
           ent_Checksum = 4276060340\<rparr>),
       (''u2'',
        \<lparr>ent_Offset = 53, ent_Size = 34, ent_CompressedSize = 34,
           ent_Checksum = 231599248\<rparr>)]"
proof -
  have n: "unat (Uint32 [2, 0, 0, 0]) = Suc (Suc 0)"
    by (simp add: Uint32_def)
  have r: "readEntries (Suc (Suc 0))
      [2, 0, 0, 0, 117, 49, 8, 0, 0, 0, 0, 0, 0, 0, 25, 0, 0, 0, 25, 0, 0, 0, 180, 128, 223, 254, 2, 0, 0, 0, 117, 50, 53, 0, 0, 0, 0, 0, 0, 0, 34, 0, 0, 0, 34, 0, 0, 0, 144, 236, 205, 13] [] = Inr [(''u1'',
        \<lparr>ent_Offset = 8, ent_Size = 25, ent_CompressedSize = 25,
           ent_Checksum = 4276060340\<rparr>),
       (''u2'',
        \<lparr>ent_Offset = 53, ent_Size = 34, ent_CompressedSize = 34,
           ent_Checksum = 231599248\<rparr>)]"
    by (simp add: take_bytes_def Uint32_def Uint64_def string_of_def char_of_def bit_Suc_0_iff)
  show ?thesis
    by (simp add: LoadOffsetIndex_def take_bytes_def n r del: readEntries.simps)
qed

lemma writer_again:
  "NewBinaryCollectionWriter
     \<lparr>dir_meta = Some \<lparr>meta_Name = ''users'', meta_Schema = None,
        meta_Indexes = [(''_id'', ''_id'')], meta_Format = ''binary''\<rparr>,
    dir_data = Some [72, 67, 65, 67, 1, 0, 1, 0, 8, 0, 0, 0, 0, 0, 0, 0, 25, 0, 0, 0, 25, 0,
     0, 0, 180, 128, 223, 254, 123, 34, 95, 105, 100, 34, 58, 34, 117, 49,
     34, 44, 34, 110, 97, 109, 101, 34, 58, 34, 65, 100, 97, 34, 125, 53, 0,
     0, 0, 0, 0, 0, 0, 34, 0, 0, 0, 34, 0, 0, 0, 144, 236, 205, 13, 123, 34,
     95, 105, 100, 34, 58, 34, 117, 50, 34, 44, 34, 110, 97, 109, 101, 34,
     58, 34, 66, 111, 98, 34, 44, 34, 97, 103, 101, 34, 58, 52, 48, 125],
    dir_idx = Some [2, 0, 0, 0, 2, 0, 0, 0, 117, 49, 8, 0, 0, 0, 0, 0, 0, 0, 25, 0, 0,
        0, 25, 0, 0, 0, 180, 128, 223, 254, 2, 0, 0, 0, 117, 50, 53, 0, 0,
        0, 0, 0, 0, 0, 34, 0, 0, 0, 34, 0, 0, 0, 144, 236, 205, 13],
    dir_indexes =
      [(''_id'',
        \<lparr>ixd_Name = ''_id'', ixd_FieldName = ''_id'',
           ixd_Data = [(''u1'', ''u1''), (''u2'', ''u2'')]\<rparr>)],
    dir_documents = None\<rparr>
   = \<lparr>w_dataFile =
    [72, 67, 65, 67, 1, 0, 1, 0, 8, 0, 0, 0, 0, 0, 0, 0, 25, 0, 0, 0, 25, 0,
     0, 0, 180, 128, 223, 254, 123, 34, 95, 105, 100, 34, 58, 34, 117, 49,
     34, 44, 34, 110, 97, 109, 101, 34, 58, 34, 65, 100, 97, 34, 125, 53, 0,
     0, 0, 0, 0, 0, 0, 34, 0, 0, 0, 34, 0, 0, 0, 144, 236, 205, 13, 123, 34,
     95, 105, 100, 34, 58, 34, 117, 50, 34, 44, 34, 110, 97, 109, 101, 34,
     58, 34, 66, 111, 98, 34, 44, 34, 97, 103, 101, 34, 58, 52, 48, 125],
    w_pos = 0, w_offset = 107,
    w_index =
      [(''u1'',
        \<lparr>ent_Offset = 8, ent_Size = 25, ent_CompressedSize = 25,
           ent_Checksum = 4276060340\<rparr>),
       (''u2'',
        \<lparr>ent_Offset = 53, ent_Size = 34, ent_CompressedSize = 34,
           ent_Checksum = 231599248\<rparr>)]\<rparr>"
  by (simp add: NewBinaryCollectionWriter_def idx_load_once)

lemma write_ada_again:
  "WriteDocument example_marshal example_compress
     \<lparr>w_dataFile =
    [72, 67, 65, 67, 1, 0, 1, 0, 8, 0, 0, 0, 0, 0, 0, 0, 25, 0, 0, 0, 25, 0,
     0, 0, 180, 128, 223, 254, 123, 34, 95, 105, 100, 34, 58, 34, 117, 49,
     34, 44, 34, 110, 97, 109, 101, 34, 58, 34, 65, 100, 97, 34, 125, 53, 0,
     0, 0, 0, 0, 0, 0, 34, 0, 0, 0, 34, 0, 0, 0, 144, 236, 205, 13, 123, 34,
     95, 105, 100, 34, 58, 34, 117, 50, 34, 44, 34, 110, 97, 109, 101, 34,
     58, 34, 66, 111, 98, 34, 44, 34, 97, 103, 101, 34, 58, 52, 48, 125],
    w_pos = 0, w_offset = 107,
    w_index =
      [(''u1'',
        \<lparr>ent_Offset = 8, ent_Size = 25, ent_CompressedSize = 25,
           ent_Checksum = 4276060340\<rparr>),
       (''u2'',
        \<lparr>ent_Offset = 53, ent_Size = 34, ent_CompressedSize = 34,
           ent_Checksum = 231599248\<rparr>)]\<rparr> ada
   = Inr \<lparr>w_dataFile =
    [107, 0, 0, 0, 0, 0, 0, 0, 25, 0, 0, 0, 25, 0, 0, 0, 180, 128, 223, 254,
     123, 34, 95, 105, 100, 34, 58, 34, 117, 49, 34, 44, 34, 110, 97, 109,
     101, 34, 58, 34, 65, 100, 97, 34, 125, 34, 58, 34, 65, 100, 97, 34,
     125, 53, 0, 0, 0, 0, 0, 0, 0, 34, 0, 0, 0, 34, 0, 0, 0, 144, 236, 205,
     13, 123, 34, 95, 105, 100, 34, 58, 34, 117, 50, 34, 44, 34, 110, 97,
     109, 101, 34, 58, 34, 66, 111, 98, 34, 44, 34, 97, 103, 101, 34, 58,
     52, 48, 125],
    w_pos = 45, w_offset = 152,
    w_index =
      [(''u1'',
        \<lparr>ent_Offset = 107, ent_Size = 25, ent_CompressedSize = 25,
           ent_Checksum = 4276060340\<rparr>),
       (''u2'',
        \<lparr>ent_Offset = 53, ent_Size = 34, ent_CompressedSize = 34,
           ent_Checksum = 231599248\<rparr>)]\<rparr>"
  by (simp add: WriteDocument_def marshal_ada example_compress_def crc_ada file_Write_def
      PutUint64_def PutUint32_def DocEntryHeaderSize_def) (simp add: ada_def)

lemma idx_bytes_twice:
  "SaveOffsetIndex [(''u1'',
        \<lparr>ent_Offset = 107, ent_Size = 25, ent_CompressedSize = 25,
           ent_Checksum = 4276060340\<rparr>),
       (''u2'',
        \<lparr>ent_Offset = 53, ent_Size = 34, ent_CompressedSize = 34,
           ent_Checksum = 231599248\<rparr>)]
   = [2, 0, 0, 0, 2, 0, 0, 0, 117, 49, 107, 0, 0, 0, 0, 0, 0, 0, 25, 0, 0, 0,
        25, 0, 0, 0, 180, 128, 223, 254, 2, 0, 0, 0, 117, 50, 53, 0, 0, 0, 0, 0,
        0, 0, 34, 0, 0, 0, 34, 0, 0, 0, 144, 236, 205, 13]"
  by (simp add: SaveOffsetIndex_def encodeEntry_def PutUint64_def PutUint32_def bytes_of_def)

lemma save_twice:
  "SaveCollection FormatBinary example_marshal example_compress
     \<lparr>dir_meta = Some \<lparr>meta_Name = ''users'', meta_Schema = None,
        meta_Indexes = [(''_id'', ''_id'')], meta_Format = ''binary''\<rparr>,
    dir_data = Some [72, 67, 65, 67, 1, 0, 1, 0, 8, 0, 0, 0, 0, 0, 0, 0, 25, 0, 0, 0, 25, 0,
     0, 0, 180, 128, 223, 254, 123, 34, 95, 105, 100, 34, 58, 34, 117, 49,
     34, 44, 34, 110, 97, 109, 101, 34, 58, 34, 65, 100, 97, 34, 125, 53, 0,
     0, 0, 0, 0, 0, 0, 34, 0, 0, 0, 34, 0, 0, 0, 144, 236, 205, 13, 123, 34,
     95, 105, 100, 34, 58, 34, 117, 50, 34, 44, 34, 110, 97, 109, 101, 34,
     58, 34, 66, 111, 98, 34, 44, 34, 97, 103, 101, 34, 58, 52, 48, 125],
    dir_idx = Some [2, 0, 0, 0, 2, 0, 0, 0, 117, 49, 8, 0, 0, 0, 0, 0, 0, 0, 25, 0, 0,
        0, 25, 0, 0, 0, 180, 128, 223, 254, 2, 0, 0, 0, 117, 50, 53, 0, 0,
        0, 0, 0, 0, 0, 34, 0, 0, 0, 34, 0, 0, 0, 144, 236, 205, 13],
    dir_indexes =
      [(''_id'',
        \<lparr>ixd_Name = ''_id'', ixd_FieldName = ''_id'',
           ixd_Data = [(''u1'', ''u1''), (''u2'', ''u2'')]\<rparr>)],
    dir_documents = None\<rparr>
     (snd (Delete users_ada_bob ''u2''))
   = (None, \<lparr>dir_meta = Some \<lparr>meta_Name = ''users'', meta_Schema = None,
        meta_Indexes = [(''_id'', ''_id'')], meta_Format = ''binary''\<rparr>,
    dir_data = Some [107, 0, 0, 0, 0, 0, 0, 0, 25, 0, 0, 0, 25, 0, 0, 0, 180, 128, 223, 254,
     123, 34, 95, 105, 100, 34, 58, 34, 117, 49, 34, 44, 34, 110, 97, 109,
     101, 34, 58, 34, 65, 100, 97, 34, 125, 34, 58, 34, 65, 100, 97, 34,
     125, 53, 0, 0, 0, 0, 0, 0, 0, 34, 0, 0, 0, 34, 0, 0, 0, 144, 236, 205,
     13, 123, 34, 95, 105, 100, 34, 58, 34, 117, 50, 34, 44, 34, 110, 97,
     109, 101, 34, 58, 34, 66, 111, 98, 34, 44, 34, 97, 103, 101, 34, 58,
     52, 48, 125],
    dir_idx = Some [2, 0, 0, 0, 2, 0, 0, 0, 117, 49, 107, 0, 0, 0, 0, 0, 0, 0, 25, 0, 0, 0,
        25, 0, 0, 0, 180, 128, 223, 254, 2, 0, 0, 0, 117, 50, 53, 0, 0, 0, 0, 0,
        0, 0, 34, 0, 0, 0, 34, 0, 0, 0, 144, 236, 205, 13],
    dir_indexes =
      [(''_id'',
        \<lparr>ixd_Name = ''_id'', ixd_FieldName = ''_id'',
           ixd_Data = [(''u1'', ''u1'')]\<rparr>)],
    dir_documents = None\<rparr>)"
  by (simp add: SaveCollection_def users_deleted_eq writer_again write_ada_again
      Flush_def idx_bytes_twice SaveToDisk_def Serialize_def FormatBinary_def)

lemma reader_twice:
  "NewBinaryCollectionReader
     \<lparr>dir_meta = Some \<lparr>meta_Name = ''users'', meta_Schema = None,
        meta_Indexes = [(''_id'', ''_id'')], meta_Format = ''binary''\<rparr>,
    dir_data = Some [107, 0, 0, 0, 0, 0, 0, 0, 25, 0, 0, 0, 25, 0, 0, 0, 180, 128, 223, 254,
     123, 34, 95, 105, 100, 34, 58, 34, 117, 49, 34, 44, 34, 110, 97, 109,
     101, 34, 58, 34, 65, 100, 97, 34, 125, 34, 58, 34, 65, 100, 97, 34,
     125, 53, 0, 0, 0, 0, 0, 0, 0, 34, 0, 0, 0, 34, 0, 0, 0, 144, 236, 205,
     13, 123, 34, 95, 105, 100, 34, 58, 34, 117, 50, 34, 44, 34, 110, 97,
     109, 101, 34, 58, 34, 66, 111, 98, 34, 44, 34, 97, 103, 101, 34, 58,
     52, 48, 125],
    dir_idx = Some [2, 0, 0, 0, 2, 0, 0, 0, 117, 49, 107, 0, 0, 0, 0, 0, 0, 0, 25, 0, 0, 0,
        25, 0, 0, 0, 180, 128, 223, 254, 2, 0, 0, 0, 117, 50, 53, 0, 0, 0, 0, 0,
        0, 0, 34, 0, 0, 0, 34, 0, 0, 0, 144, 236, 205, 13],
    dir_indexes =
      [(''_id'',
        \<lparr>ixd_Name = ''_id'', ixd_FieldName = ''_id'',
           ixd_Data = [(''u1'', ''u1'')]\<rparr>)],
    dir_documents = None\<rparr>
   = Inl (InvalidMagic 107)"
  by (simp add: NewBinaryCollectionReader_def readHeader_def ReadAt_def HeaderSize_def
      Uint32_def Uint16_def CollectionMagic_def)

lemma idx_load_twice:
  "LoadOffsetIndex (Some [2, 0, 0, 0, 2, 0, 0, 0, 117, 49, 107, 0, 0, 0, 0, 0, 0, 0, 25, 0, 0, 0,
        25, 0, 0, 0, 180, 128, 223, 254, 2, 0, 0, 0, 117, 50, 53, 0, 0, 0, 0, 0,
        0, 0, 34, 0, 0, 0, 34, 0, 0, 0, 144, 236, 205, 13])
   = Inr [(''u1'',
        \<lparr>ent_Offset = 107, ent_Size = 25, ent_CompressedSize = 25,
           ent_Checksum = 4276060340\<rparr>),
       (''u2'',
        \<lparr>ent_Offset = 53, ent_Size = 34, ent_CompressedSize = 34,
           ent_Checksum = 231599248\<rparr>)]"
proof -
  have n: "unat (Uint32 [2, 0, 0, 0]) = Suc (Suc 0)"
    by (simp add: Uint32_def)
  have r: "readEntries (Suc (Suc 0))
      [2, 0, 0, 0, 117, 49, 107, 0, 0, 0, 0, 0, 0, 0, 25, 0, 0, 0, 25, 0, 0, 0, 180, 128, 223, 254, 2, 0, 0, 0, 117, 50, 53, 0, 0, 0, 0, 0, 0, 0, 34, 0, 0, 0, 34, 0, 0, 0, 144, 236, 205, 13] [] = Inr [(''u1'',
        \<lparr>ent_Offset = 107, ent_Size = 25, ent_CompressedSize = 25,
           ent_Checksum = 4276060340\<rparr>),
       (''u2'',
        \<lparr>ent_Offset = 53, ent_Size = 34, ent_CompressedSize = 34,
           ent_Checksum = 231599248\<rparr>)]"
    by (simp add: take_bytes_def Uint32_def Uint64_def string_of_def char_of_def bit_Suc_0_iff)
  show ?thesis
    by (simp add: LoadOffsetIndex_def take_bytes_def n r del: readEntries.simps)
qed


lemma users_ada_bob_name: "coll_Name users_ada_bob = ''users''"
  by (simp add: users_ada_bob_eq)

lemma users_deleted_name: "coll_Name (snd (Delete users_ada_bob ''u2'')) = ''users''"
  by (simp add: users_deleted_eq)

lemma SaveDatabase_once:
  "SaveDatabase FormatBinary example_marshal example_compress [] example_db
   = (None, [(''example'', \<lparr>dbdir_meta = Some ''example'', dbdir_collections = [(''users'',
     \<lparr>dir_meta = Some \<lparr>meta_Name = ''users'', meta_Schema = None,
        meta_Indexes = [(''_id'', ''_id'')], meta_Format = ''binary''\<rparr>,
    dir_data = Some [72, 67, 65, 67, 1, 0, 1, 0, 8, 0, 0, 0, 0, 0, 0, 0, 25, 0, 0, 0, 25, 0,
     0, 0, 180, 128, 223, 254, 123, 34, 95, 105, 100, 34, 58, 34, 117, 49,
     34, 44, 34, 110, 97, 109, 101, 34, 58, 34, 65, 100, 97, 34, 125, 53, 0,
     0, 0, 0, 0, 0, 0, 34, 0, 0, 0, 34, 0, 0, 0, 144, 236, 205, 13, 123, 34,
     95, 105, 100, 34, 58, 34, 117, 50, 34, 44, 34, 110, 97, 109, 101, 34,
     58, 34, 66, 111, 98, 34, 44, 34, 97, 103, 101, 34, 58, 52, 48, 125],
    dir_idx = Some [2, 0, 0, 0, 2, 0, 0, 0, 117, 49, 8, 0, 0, 0, 0, 0, 0, 0, 25, 0, 0,
        0, 25, 0, 0, 0, 180, 128, 223, 254, 2, 0, 0, 0, 117, 50, 53, 0, 0,
        0, 0, 0, 0, 0, 34, 0, 0, 0, 34, 0, 0, 0, 144, 236, 205, 13],
    dir_indexes =
      [(''_id'',
        \<lparr>ixd_Name = ''_id'', ixd_FieldName = ''_id'',
           ixd_Data = [(''u1'', ''u1''), (''u2'', ''u2'')]\<rparr>)],
    dir_documents = None\<rparr>)]\<rparr>)])"
  by (simp add: SaveDatabase_def example_db_def users_ada_bob_name save_once)

lemma disk_once_eq:
  "disk_once = [(''example'', \<lparr>dbdir_meta = Some ''example'', dbdir_collections = [(''users'',
     \<lparr>dir_meta = Some \<lparr>meta_Name = ''users'', meta_Schema = None,
        meta_Indexes = [(''_id'', ''_id'')], meta_Format = ''binary''\<rparr>,
    dir_data = Some [72, 67, 65, 67, 1, 0, 1, 0, 8, 0, 0, 0, 0, 0, 0, 0, 25, 0, 0, 0, 25, 0,
     0, 0, 180, 128, 223, 254, 123, 34, 95, 105, 100, 34, 58, 34, 117, 49,
     34, 44, 34, 110, 97, 109, 101, 34, 58, 34, 65, 100, 97, 34, 125, 53, 0,
     0, 0, 0, 0, 0, 0, 34, 0, 0, 0, 34, 0, 0, 0, 144, 236, 205, 13, 123, 34,
     95, 105, 100, 34, 58, 34, 117, 50, 34, 44, 34, 110, 97, 109, 101, 34,
     58, 34, 66, 111, 98, 34, 44, 34, 97, 103, 101, 34, 58, 52, 48, 125],
    dir_idx = Some [2, 0, 0, 0, 2, 0, 0, 0, 117, 49, 8, 0, 0, 0, 0, 0, 0, 0, 25, 0, 0,
        0, 25, 0, 0, 0, 180, 128, 223, 254, 2, 0, 0, 0, 117, 50, 53, 0, 0,
        0, 0, 0, 0, 0, 34, 0, 0, 0, 34, 0, 0, 0, 144, 236, 205, 13],
    dir_indexes =
      [(''_id'',
        \<lparr>ixd_Name = ''_id'', ixd_FieldName = ''_id'',
           ixd_Data = [(''u1'', ''u1''), (''u2'', ''u2'')]\<rparr>)],
    dir_documents = None\<rparr>)]\<rparr>)]"
  by (simp add: disk_once_def SaveDatabase_once)

lemma SaveDatabase_twice:
  "SaveDatabase FormatBinary example_marshal example_compress disk_once example_db_deleted
   = (None, [(''example'', \<lparr>dbdir_meta = Some ''example'', dbdir_collections = [(''users'',
     \<lparr>dir_meta = Some \<lparr>meta_Name = ''users'', meta_Schema = None,
        meta_Indexes = [(''_id'', ''_id'')], meta_Format = ''binary''\<rparr>,
    dir_data = Some [107, 0, 0, 0, 0, 0, 0, 0, 25, 0, 0, 0, 25, 0, 0, 0, 180, 128, 223, 254,
     123, 34, 95, 105, 100, 34, 58, 34, 117, 49, 34, 44, 34, 110, 97, 109,
     101, 34, 58, 34, 65, 100, 97, 34, 125, 34, 58, 34, 65, 100, 97, 34,
     125, 53, 0, 0, 0, 0, 0, 0, 0, 34, 0, 0, 0, 34, 0, 0, 0, 144, 236, 205,
     13, 123, 34, 95, 105, 100, 34, 58, 34, 117, 50, 34, 44, 34, 110, 97,
     109, 101, 34, 58, 34, 66, 111, 98, 34, 44, 34, 97, 103, 101, 34, 58,
     52, 48, 125],
    dir_idx = Some [2, 0, 0, 0, 2, 0, 0, 0, 117, 49, 107, 0, 0, 0, 0, 0, 0, 0, 25, 0, 0, 0,
        25, 0, 0, 0, 180, 128, 223, 254, 2, 0, 0, 0, 117, 50, 53, 0, 0, 0, 0, 0,
        0, 0, 34, 0, 0, 0, 34, 0, 0, 0, 144, 236, 205, 13],
    dir_indexes =
      [(''_id'',
        \<lparr>ixd_Name = ''_id'', ixd_FieldName = ''_id'',
           ixd_Data = [(''u1'', ''u1'')]\<rparr>)],
    dir_documents = None\<rparr>)]\<rparr>)])"
  by (simp add: disk_once_eq SaveDatabase_def example_db_deleted_def users_deleted_name
      save_twice)

lemma disk_twice_eq:
  "disk_twice = [(''example'', \<lparr>dbdir_meta = Some ''example'', dbdir_collections = [(''users'',
     \<lparr>dir_meta = Some \<lparr>meta_Name = ''users'', meta_Schema = None,
        meta_Indexes = [(''_id'', ''_id'')], meta_Format = ''binary''\<rparr>,
    dir_data = Some [107, 0, 0, 0, 0, 0, 0, 0, 25, 0, 0, 0, 25, 0, 0, 0, 180, 128, 223, 254,
     123, 34, 95, 105, 100, 34, 58, 34, 117, 49, 34, 44, 34, 110, 97, 109,
     101, 34, 58, 34, 65, 100, 97, 34, 125, 34, 58, 34, 65, 100, 97, 34,
     125, 53, 0, 0, 0, 0, 0, 0, 0, 34, 0, 0, 0, 34, 0, 0, 0, 144, 236, 205,
     13, 123, 34, 95, 105, 100, 34, 58, 34, 117, 50, 34, 44, 34, 110, 97,
     109, 101, 34, 58, 34, 66, 111, 98, 34, 44, 34, 97, 103, 101, 34, 58,
     52, 48, 125],
    dir_idx = Some [2, 0, 0, 0, 2, 0, 0, 0, 117, 49, 107, 0, 0, 0, 0, 0, 0, 0, 25, 0, 0, 0,
        25, 0, 0, 0, 180, 128, 223, 254, 2, 0, 0, 0, 117, 50, 53, 0, 0, 0, 0, 0,
        0, 0, 34, 0, 0, 0, 34, 0, 0, 0, 144, 236, 205, 13],
    dir_indexes =
      [(''_id'',
        \<lparr>ixd_Name = ''_id'', ixd_FieldName = ''_id'',
           ixd_Data = [(''u1'', ''u1'')]\<rparr>)],
    dir_documents = None\<rparr>)]\<rparr>)]"
  by (simp add: disk_twice_def SaveDatabase_twice)

lemma LoadDatabase_twice:
  "LoadDatabase decompress unmarshal disk_twice ''example''
   = Inl (LoadCollectionFailed ''users'' (CreateBinaryReaderFailed (InvalidMagic 107)))"
  by (simp add: disk_twice_eq LoadDatabase_def LoadCollection_def
      NewCollection_def FormatBinary_def FormatJSON_def reader_twice)

lemma stale_entry_twice:
  "LoadOffsetIndex (dir_idx (collectionDir disk_twice ''example'' ''users''))
   = Inr [(''u1'',
        \<lparr>ent_Offset = 107, ent_Size = 25, ent_CompressedSize = 25,
           ent_Checksum = 4276060340\<rparr>),
       (''u2'',
        \<lparr>ent_Offset = 53, ent_Size = 34, ent_CompressedSize = 34,
           ent_Checksum = 231599248\<rparr>)]"
  by (simp add: disk_twice_eq collectionDir_def idx_load_twice)

text \<open>
  C2. A database with one collection of two documents is saved to an empty disk; the
  second document is deleted and the database is saved again. Both saves return nil.
  The second save writes its first record at position 0 of the existing
  \<^verbatim>\<open>collection.data\<close>, over the header, so \<open>LoadDatabase\<close> fails on the magic
  number (it reads 107, the size of the file after the first save); and the rewritten
  \<^verbatim>\<open>collection.idx\<close> still has the entry of the deleted document.
\<close>

theorem second_save_breaks_load:
  "fst (SaveDatabase FormatBinary example_marshal example_compress [] example_db) = None
   \<and> fst (SaveDatabase FormatBinary example_marshal example_compress disk_once
             example_db_deleted) = None
   \<and> LoadDatabase decompress unmarshal disk_twice ''example''
       = Inl (LoadCollectionFailed ''users'' (CreateBinaryReaderFailed (InvalidMagic 107)))
   \<and> map_of (db_Collections example_db_deleted) ''users''
       = Some (snd (Delete users_ada_bob ''u2''))
   \<and> map_of (coll_Documents (snd (Delete users_ada_bob ''u2''))) ''u2'' = None
   \<and> map_option ent_Offset
        (map_of
           (case LoadOffsetIndex (dir_idx (collectionDir disk_twice ''example'' ''users'')) of
              Inl e \<Rightarrow> [] | Inr index \<Rightarrow> index) ''u2'') = Some 53"
proof -
  have a: "map_of (db_Collections example_db_deleted) ''users''
             = Some (snd (Delete users_ada_bob ''u2''))"
    by (simp add: example_db_deleted_def)
  have b: "map_of (coll_Documents (snd (Delete users_ada_bob ''u2''))) ''u2'' = None"
    by (simp add: users_deleted_eq)
  show ?thesis
    by (simp add: SaveDatabase_once SaveDatabase_twice LoadDatabase_twice stale_entry_twice a b)
qed

subsection \<open>Opening a binary collection file\<close>

lemma reader_rejects_wrong_magic:
  assumes "dir_data dir = Some f" and "readHeader f = Inr h" and "hdr_Magic h \<noteq> CollectionMagic"
  shows "NewBinaryCollectionReader dir = Inl (InvalidMagic (hdr_Magic h))"
  using assms by (simp add: NewBinaryCollectionReader_def)

text \<open>
  C5. A \<^verbatim>\<open>collection.data\<close> whose header has the right magic number and version 2
  (or any other version) is opened without error: \<open>readHeader\<close> decodes the version and
  \<open>NewBinaryCollectionReader\<close> compares the magic number only. (A wrong magic number is
  rejected: \<open>reader_rejects_wrong_magic\<close>.)
\<close>

theorem NewBinaryCollectionReader_ignores_version:
  "NewBinaryCollectionReader
     \<lparr>dir_meta = m, dir_data = Some [0x48, 0x43, 0x41, 0x43, 2, 0, 1, 0], dir_idx = None,
        dir_indexes = ixs, dir_documents = ds\<rparr>
   = Inr \<lparr>r_dataFile = [0x48, 0x43, 0x41, 0x43, 2, 0, 1, 0], r_index = []\<rparr>
   \<and> readHeader [0x48, 0x43, 0x41, 0x43, 2, 0, 1, 0]
       = Inr \<lparr>hdr_Magic = CollectionMagic, hdr_Version = 2, hdr_Flags = 1\<rparr>
   \<and> BinaryFormatVersion = 1
   \<and> NewBinaryCollectionReader
       \<lparr>dir_meta = m,
          dir_data = Some (PutUint32 CollectionMagic @ PutUint16 version @ PutUint16 flags @ records),
          dir_idx = None, dir_indexes = ixs, dir_documents = ds\<rparr>
     = Inr \<lparr>r_dataFile = PutUint32 CollectionMagic @ PutUint16 version @ PutUint16 flags @ records,
            r_index = []\<rparr>"
  by (simp add: NewBinaryCollectionReader_def readHeader_def ReadAt_def HeaderSize_def
      Uint32_def Uint16_def PutUint32_def PutUint16_def CollectionMagic_def LoadOffsetIndex_def
      BinaryFormatVersion_def)

subsection \<open>Record checksums\<close>

lemma file_Write_twice:
  "take (length e + length c) (drop p (fst (file_Write (file_Write (f, p) e) c))) = e @ c"
proof -
  define pre where "pre = take p f @ replicate (p - length f) 0"
  define post where "post = drop (p + length e) f"
  have lp: "length pre = p"
    by (simp add: pre_def)
  have w1: "file_Write (f, p) e = (pre @ e @ post, p + length e)"
    by (simp add: file_Write_def pre_def post_def)
  have t: "take (p + length e) (pre @ e @ post) = pre @ e"
    using lp by simp
  have r: "p + length e - length (pre @ e @ post) = 0"
    using lp by simp
  have w2: "fst (file_Write (pre @ e @ post, p + length e) c)
              = pre @ e @ c @ drop (p + length e + length c) (pre @ e @ post)"
    unfolding file_Write_def using t r by simp
  show ?thesis
    unfolding w1 w2 using lp by simp
qed

lemma WriteDocument_record:
  assumes "marshal doc = Inr jsonData" and "compress jsonData = Inr payload"
  shows "\<exists>w'. WriteDocument marshal compress w doc = Inr w'
           \<and> map_of (w_index w') (doc_ID doc)
               = Some \<lparr>ent_Offset = w_offset w, ent_Size = of_nat (length jsonData),
                        ent_CompressedSize = of_nat (length payload),
                        ent_Checksum = ChecksumIEEE payload\<rparr>
           \<and> take (DocEntryHeaderSize + length payload) (drop (w_pos w) (w_dataFile w'))
               = PutUint64 (w_offset w) @ PutUint32 (of_nat (length jsonData))
                   @ PutUint32 (of_nat (length payload)) @ PutUint32 (ChecksumIEEE payload)
                   @ payload"
proof -
  let ?e = "PutUint64 (w_offset w) @ PutUint32 (of_nat (length jsonData))
              @ PutUint32 (of_nat (length payload)) @ PutUint32 (ChecksumIEEE payload)"
  have le: "length ?e = DocEntryHeaderSize"
    by (simp add: PutUint64_def PutUint32_def DocEntryHeaderSize_def)
  have "take (length ?e + length payload)
          (drop (w_pos w) (fst (file_Write (file_Write (w_dataFile w, w_pos w) ?e) payload)))
        = ?e @ payload"
    by (rule file_Write_twice)
  then show ?thesis
    using assms le by (simp add: WriteDocument_def Let_def update_conv')
qed

lemma stored_payload:
  assumes "take (n + length c) (drop p f) = e @ c" and "length e = n"
  shows "take (length c) (drop (p + n) f) = c"
proof -
  have "drop n (take (n + length c) (drop p f)) = c"
    using assms by simp
  then show ?thesis
    by (simp add: drop_take add.commute)
qed

lemma WriteDocument_size:
  assumes m: "marshal doc = Inr jsonData" and c: "compress jsonData = Inr payload"
    and inv: "\<forall>x y. compress x = Inr y \<longrightarrow> decompress y = Inr x"
    and len: "length jsonData < 2 ^ 32"
  shows "\<exists>w' entry out. WriteDocument marshal compress w doc = Inr w'
           \<and> map_of (w_index w') (doc_ID doc) = Some entry
           \<and> take DocEntryHeaderSize (drop (w_pos w) (w_dataFile w'))
               = PutUint64 (ent_Offset entry) @ PutUint32 (ent_Size entry)
                   @ PutUint32 (ent_CompressedSize entry) @ PutUint32 (ent_Checksum entry)
           \<and> decompress (take (length payload) (drop (w_pos w + DocEntryHeaderSize) (w_dataFile w')))
               = Inr out
           \<and> out = jsonData
           \<and> length out = unat (ent_Size entry)"
proof -
  let ?e = "PutUint64 (w_offset w) @ PutUint32 (of_nat (length jsonData))
              @ PutUint32 (of_nat (length payload)) @ PutUint32 (ChecksumIEEE payload)"
  let ?entry = "\<lparr>ent_Offset = w_offset w, ent_Size = of_nat (length jsonData),
                   ent_CompressedSize = of_nat (length payload),
                   ent_Checksum = ChecksumIEEE payload\<rparr>"
  have le: "length ?e = DocEntryHeaderSize"
    by (simp add: PutUint64_def PutUint32_def DocEntryHeaderSize_def)
  from WriteDocument_record [of marshal doc jsonData compress payload w] m c obtain w' where
    w1: "WriteDocument marshal compress w doc = Inr w'" and
    w2: "map_of (w_index w') (doc_ID doc) = Some ?entry" and
    w3f: "take (DocEntryHeaderSize + length payload) (drop (w_pos w) (w_dataFile w'))
           = PutUint64 (w_offset w) @ PutUint32 (of_nat (length jsonData))
               @ PutUint32 (of_nat (length payload)) @ PutUint32 (ChecksumIEEE payload) @ payload"
    by blast
  have w3: "take (DocEntryHeaderSize + length payload) (drop (w_pos w) (w_dataFile w')) = ?e @ payload"
    using w3f by simp
  have p: "take (length payload) (drop (w_pos w + DocEntryHeaderSize) (w_dataFile w')) = payload"
    using w3 le by (rule stored_payload)
  have "take DocEntryHeaderSize (take (DocEntryHeaderSize + length payload) (drop (w_pos w) (w_dataFile w')))
          = ?e"
    unfolding w3 using le by simp
  then have h: "take DocEntryHeaderSize (drop (w_pos w) (w_dataFile w')) = ?e"
    by simp
  have d: "decompress payload = Inr jsonData"
    using inv c by blast
  have s: "length jsonData = unat (of_nat (length jsonData) :: 32 word)"
    using len by (simp add: unat_of_nat)
  show ?thesis
    using w1 w2 h p d s by simp
qed

lemma ReadDocument_checksum_mismatch:
  assumes "map_of (r_index r) docID = Some entry"
    and "ReadAt (r_dataFile r) (unat (of_nat DocEntryHeaderSize + ent_CompressedSize entry))
           (sint (ent_Offset entry)) = Inr buf"
    and "DocEntryHeaderSize \<le> length buf"
    and "ChecksumIEEE (drop DocEntryHeaderSize buf) \<noteq> ent_Checksum entry"
  shows "ReadDocument decompress unmarshal r docID = Inl (ChecksumMismatch docID)"
  using assms by (simp add: ReadDocument_def Let_def)

lemma ReadDocument_Inr:
  assumes "ReadDocument decompress unmarshal r docID = Inr doc"
  shows "\<exists>entry buf jsonData. map_of (r_index r) docID = Some entry
     \<and> ReadAt (r_dataFile r) (unat (of_nat DocEntryHeaderSize + ent_CompressedSize entry))
           (sint (ent_Offset entry)) = Inr buf
     \<and> ChecksumIEEE (drop DocEntryHeaderSize buf) = ent_Checksum entry
     \<and> decompress (drop DocEntryHeaderSize buf) = Inr jsonData
     \<and> unmarshal jsonData = Inr doc"
  using assms
  by (auto simp add: ReadDocument_def Let_def split: option.splits sum.splits if_splits)


lemma crc_tampered:
  "ChecksumIEEE [123, 34, 95, 105, 100, 34, 58, 34, 117, 49, 34, 44, 34, 110, 97, 109, 101, 34, 58, 34, 66, 100, 97, 34, 125] = 3112172132"
  by (simp add: ChecksumIEEE_def crc_byte_def crc_bit_def)

lemma marshal_huge: "example_marshal huge = Inr huge_json"
  by (simp add: example_marshal_def huge_def bytes_of_def huge_json_def)

lemma length_huge_json: "length huge_json = 4294967296"
  by (simp add: huge_json_def)

lemma size_huge: "(of_nat (length huge_json) :: 32 word) = 0"
  by (simp add: length_huge_json)

text \<open>
  C8 (as amended). When the document serializes and compresses, \<open>WriteDocument\<close> succeeds;
  the record it writes at the file position is the entry header followed by the compressed
  payload, and the header's checksum, like the one of the offset index entry, is the
  CRC-32 of that payload. When moreover the serialized document is shorter than
  \<open>2 ^ 32\<close> bytes and \<open>decompress\<close> inverts \<open>compress\<close>, the header written to the file
  carries the fields of the offset index entry, and decompressing the payload stored
  behind it yields the serialized document, whose length is the entry's size.
  \<open>ReadDocument\<close> computes the CRC-32 of the stored payload and, when it differs from the
  recorded checksum, returns the checksum error whatever \<open>decompress\<close> and \<open>unmarshal\<close>
  are, that is without calling them.
\<close>

theorem record_checksum_written_and_verified:
  "(marshal doc = Inr jsonData \<and> compress jsonData = Inr payload
      \<longrightarrow> (\<exists>w'. WriteDocument marshal compress w doc = Inr w'
             \<and> map_of (w_index w') (doc_ID doc)
                 = Some \<lparr>ent_Offset = w_offset w, ent_Size = of_nat (length jsonData),
                          ent_CompressedSize = of_nat (length payload),
                          ent_Checksum = ChecksumIEEE payload\<rparr>
             \<and> take (DocEntryHeaderSize + length payload) (drop (w_pos w) (w_dataFile w'))
                 = PutUint64 (w_offset w) @ PutUint32 (of_nat (length jsonData))
                     @ PutUint32 (of_nat (length payload)) @ PutUint32 (ChecksumIEEE payload)
                     @ payload))
   \<and> (marshal doc = Inr jsonData \<and> compress jsonData = Inr payload
        \<and> (\<forall>x y. compress x = Inr y \<longrightarrow> decompress y = Inr x)
        \<and> length jsonData < 2 ^ 32
      \<longrightarrow> (\<exists>w' entry out. WriteDocument marshal compress w doc = Inr w'
             \<and> map_of (w_index w') (doc_ID doc) = Some entry
             \<and> take DocEntryHeaderSize (drop (w_pos w) (w_dataFile w'))
                 = PutUint64 (ent_Offset entry) @ PutUint32 (ent_Size entry)
                     @ PutUint32 (ent_CompressedSize entry) @ PutUint32 (ent_Checksum entry)
             \<and> decompress (take (length payload)
                              (drop (w_pos w + DocEntryHeaderSize) (w_dataFile w')))
                 = Inr out
             \<and> out = jsonData
             \<and> length out = unat (ent_Size entry)))
   \<and> (map_of (r_index r) docID = Some entry
        \<and> ReadAt (r_dataFile r) (unat (of_nat DocEntryHeaderSize + ent_CompressedSize entry))
              (sint (ent_Offset entry)) = Inr buf
        \<and> DocEntryHeaderSize \<le> length buf
        \<and> ChecksumIEEE (drop DocEntryHeaderSize buf) \<noteq> ent_Checksum entry
      \<longrightarrow> ReadDocument decompress' unmarshal r docID = Inl (ChecksumMismatch docID))"
  using WriteDocument_record [of marshal doc jsonData compress payload w]
    WriteDocument_size [of marshal doc jsonData compress payload decompress w]
    ReadDocument_checksum_mismatch [of r docID entry buf decompress' unmarshal]
  by blast

theorem record_checksum_written_and_verified_witness:
  "example_marshal ada = Inr [123, 34, 95, 105, 100, 34, 58, 34, 117, 49, 34, 44, 34, 110, 97, 109, 101, 34, 58, 34, 65, 100, 97, 34, 125]
   \<and> example_compress [123, 34, 95, 105, 100, 34, 58, 34, 117, 49, 34, 44, 34, 110, 97, 109, 101, 34, 58, 34, 65, 100, 97, 34, 125] = Inr [123, 34, 95, 105, 100, 34, 58, 34, 117, 49, 34, 44, 34, 110, 97, 109, 101, 34, 58, 34, 65, 100, 97, 34, 125]
   \<and> (\<forall>x. example_compress x = Inr x) \<and> (\<forall>y. example_decompress y = Inr y)
   \<and> length ([123, 34, 95, 105, 100, 34, 58, 34, 117, 49, 34, 44, 34, 110, 97, 109, 101, 34, 58, 34, 65, 100, 97, 34, 125] :: byte list) = 25
   \<and> (\<exists>w'. WriteDocument example_marshal example_compress
               \<lparr>w_dataFile = [72, 67, 65, 67, 1, 0, 1, 0], w_pos = 8, w_offset = 8, w_index = []\<rparr>
               ada = Inr w'
          \<and> map_of (w_index w') ''u1''
              = Some \<lparr>ent_Offset = 8, ent_Size = 25, ent_CompressedSize = 25,
                       ent_Checksum = 4276060340\<rparr>
          \<and> take 45 (drop 8 (w_dataFile w')) = [8, 0, 0, 0, 0, 0, 0, 0, 25, 0, 0, 0, 25, 0, 0, 0, 180, 128, 223, 254] @ [123, 34, 95, 105, 100, 34, 58, 34, 117, 49, 34, 44, 34, 110, 97, 109, 101, 34, 58, 34, 65, 100, 97, 34, 125]
          \<and> example_decompress (take 25 (drop 28 (w_dataFile w'))) = Inr [123, 34, 95, 105, 100, 34, 58, 34, 117, 49, 34, 44, 34, 110, 97, 109, 101, 34, 58, 34, 65, 100, 97, 34, 125]
          \<and> length ([123, 34, 95, 105, 100, 34, 58, 34, 117, 49, 34, 44, 34, 110, 97, 109, 101, 34, 58, 34, 65, 100, 97, 34, 125] :: byte list) = unat (25 :: 32 word))
   \<and> ChecksumIEEE [123, 34, 95, 105, 100, 34, 58, 34, 117, 49, 34, 44, 34, 110, 97, 109, 101, 34, 58, 34, 66, 100, 97, 34, 125] \<noteq> 4276060340
   \<and> (\<forall>decompress unmarshal.
         ReadDocument decompress unmarshal tampered_reader ''u1'' = Inl (ChecksumMismatch ''u1''))"
proof -
  let ?J = "[123, 34, 95, 105, 100, 34, 58, 34, 117, 49, 34, 44, 34, 110, 97, 109, 101, 34, 58, 34, 65, 100, 97, 34, 125] :: byte list"
  have c: "example_compress ?J = Inr ?J"
    by (simp add: example_compress_def)
  have ca: "\<forall>x. example_compress x = Inr x"
    by (simp add: example_compress_def)
  have da: "\<forall>y. example_decompress y = Inr y"
    by (simp add: example_decompress_def)
  have inv: "\<forall>x y. example_compress x = Inr y \<longrightarrow> example_decompress y = Inr x"
    by (simp add: example_compress_def example_decompress_def)
  have ln: "length ?J = 25"
    by simp
  have l: "length ?J < 2 ^ 32"
    by simp
  have e: "map_of (r_index tampered_reader) ''u1''
             = Some \<lparr>ent_Offset = 8, ent_Size = 25, ent_CompressedSize = 25,
                      ent_Checksum = 4276060340\<rparr>"
    by (simp add: tampered_reader_def)
  have b: "ReadAt (r_dataFile tampered_reader) (unat (of_nat DocEntryHeaderSize + (25 :: 32 word)))
             (sint (8 :: 64 word))
           = Inr [8, 0, 0, 0, 0, 0, 0, 0, 25, 0, 0, 0, 25, 0, 0, 0, 180, 128, 223, 254, 123, 34, 95, 105, 100, 34, 58, 34, 117, 49, 34, 44, 34, 110, 97, 109, 101, 34, 58, 34, 66, 100, 97, 34, 125]"
    by (simp add: tampered_reader_def ReadAt_def DocEntryHeaderSize_def)
  have t: "ChecksumIEEE (drop DocEntryHeaderSize [8, 0, 0, 0, 0, 0, 0, 0, 25, 0, 0, 0, 25, 0, 0, 0, 180, 128, 223, 254, 123, 34, 95, 105, 100, 34, 58, 34, 117, 49, 34, 44, 34, 110, 97, 109, 101, 34, 58, 34, 66, 100, 97, 34, 125]) \<noteq> 4276060340"
    by (simp add: DocEntryHeaderSize_def crc_tampered)
  have rd: "ReadDocument decompress unmarshal tampered_reader ''u1'' = Inl (ChecksumMismatch ''u1'')"
    for decompress unmarshal
    using record_checksum_written_and_verified
      [where r = tampered_reader and docID = "''u1''" and buf = "[8, 0, 0, 0, 0, 0, 0, 0, 25, 0, 0, 0, 25, 0, 0, 0, 180, 128, 223, 254, 123, 34, 95, 105, 100, 34, 58, 34, 117, 49, 34, 44, 34, 110, 97, 109, 101, 34, 58, 34, 66, 100, 97, 34, 125]"
         and entry = "\<lparr>ent_Offset = 8, ent_Size = 25, ent_CompressedSize = 25,
                          ent_Checksum = 4276060340\<rparr>"
         and decompress' = decompress and unmarshal = unmarshal, THEN conjunct2, THEN conjunct2]
      e b t
    by (simp add: DocEntryHeaderSize_def)
  let ?w = "\<lparr>w_dataFile = [72, 67, 65, 67, 1, 0, 1, 0], w_pos = 8, w_offset = 8, w_index = []\<rparr>"
  note inst = record_checksum_written_and_verified
      [where marshal = example_marshal and compress = example_compress and doc = ada
         and jsonData = ?J and payload = ?J and decompress = example_decompress and w = ?w]
  from inst [THEN conjunct1] marshal_ada c obtain w' where
    w1: "WriteDocument example_marshal example_compress ?w ada = Inr w'" and
    w2: "map_of (w_index w') (doc_ID ada)
           = Some \<lparr>ent_Offset = w_offset ?w, ent_Size = of_nat (length ?J),
                    ent_CompressedSize = of_nat (length ?J), ent_Checksum = ChecksumIEEE ?J\<rparr>" and
    w3: "take (DocEntryHeaderSize + length ?J) (drop (w_pos ?w) (w_dataFile w'))
           = PutUint64 (w_offset ?w) @ PutUint32 (of_nat (length ?J))
               @ PutUint32 (of_nat (length ?J)) @ PutUint32 (ChecksumIEEE ?J) @ ?J"
    by blast
  have w2': "map_of (w_index w') ''u1''
           = Some \<lparr>ent_Offset = 8, ent_Size = 25, ent_CompressedSize = 25,
                    ent_Checksum = 4276060340\<rparr>"
    using w2 by (simp add: ada_def crc_ada)
  have w3': "take 45 (drop 8 (w_dataFile w')) = [8, 0, 0, 0, 0, 0, 0, 0, 25, 0, 0, 0, 25, 0, 0, 0, 180, 128, 223, 254] @ ?J"
    using w3 by (simp add: DocEntryHeaderSize_def PutUint64_def PutUint32_def crc_ada)
  from inst [THEN conjunct2, THEN conjunct1] marshal_ada c inv l obtain w'' entry out where
    v1: "WriteDocument example_marshal example_compress ?w ada = Inr w''" and
    v2: "map_of (w_index w'') (doc_ID ada) = Some entry" and
    v4: "example_decompress (take (length ?J) (drop (w_pos ?w + DocEntryHeaderSize) (w_dataFile w'')))
           = Inr out" and
    v5: "out = ?J" and
    v6: "length out = unat (ent_Size entry)"
    by blast
  have same: "w'' = w'"
    using w1 v1 by simp
  have ent: "entry = \<lparr>ent_Offset = 8, ent_Size = 25, ent_CompressedSize = 25,
                        ent_Checksum = 4276060340\<rparr>"
    using v2 w2' unfolding same by (simp add: ada_def)
  have v4': "example_decompress (take 25 (drop 28 (w_dataFile w'))) = Inr ?J"
    using v4 v5 unfolding same ln by (simp add: DocEntryHeaderSize_def)
  have v6': "length ?J = unat (25 :: 32 word)"
    using v6 v5 ent by simp
  have wr: "\<exists>w'. WriteDocument example_marshal example_compress ?w ada = Inr w'
          \<and> map_of (w_index w') ''u1''
              = Some \<lparr>ent_Offset = 8, ent_Size = 25, ent_CompressedSize = 25,
                       ent_Checksum = 4276060340\<rparr>
          \<and> take 45 (drop 8 (w_dataFile w')) = [8, 0, 0, 0, 0, 0, 0, 0, 25, 0, 0, 0, 25, 0, 0, 0, 180, 128, 223, 254] @ ?J
          \<and> example_decompress (take 25 (drop 28 (w_dataFile w'))) = Inr ?J
          \<and> length ?J = unat (25 :: 32 word)"
    using w1 w2' w3' v4' v6' by blast
  show ?thesis
    using marshal_ada c ca da ln wr rd t by (simp add: DocEntryHeaderSize_def)
qed

text \<open>
  C8 (as stated) fails. The document \<open>huge\<close> serializes to \<open>2 ^ 32\<close> bytes, which the
  compressor stores as they are. \<open>WriteDocument\<close> on a fresh file succeeds and records the
  size \<^verbatim>\<open>uint32(len(jsonData))\<close>, which is 0, in the offset index entry and in the
  entry header, while decompressing the stored payload yields \<open>2 ^ 32\<close> bytes.
\<close>

theorem WriteDocument_size_wraps:
  "example_marshal huge = Inr huge_json
   \<and> length huge_json = 4294967296
   \<and> (\<exists>w' entry out.
         WriteDocument example_marshal example_compress
           \<lparr>w_dataFile = [72, 67, 65, 67, 1, 0, 1, 0], w_pos = 8, w_offset = 8, w_index = []\<rparr>
           huge = Inr w'
       \<and> map_of (w_index w') ''u1'' = Some entry
       \<and> ent_Size entry = 0
       \<and> take 16 (drop 8 (w_dataFile w')) = [8, 0, 0, 0, 0, 0, 0, 0, 0, 0, 0, 0, 0, 0, 0, 0]
       \<and> take 4294967296 (drop 28 (w_dataFile w')) = huge_json
       \<and> example_decompress (take 4294967296 (drop 28 (w_dataFile w'))) = Inr out
       \<and> length out = 4294967296
       \<and> length out \<noteq> unat (ent_Size entry))"
proof -
  let ?w = "\<lparr>w_dataFile = [72, 67, 65, 67, 1, 0, 1, 0], w_pos = 8, w_offset = 8, w_index = []\<rparr>"
  let ?e = "PutUint64 (w_offset ?w) @ PutUint32 (of_nat (length huge_json))
              @ PutUint32 (of_nat (length huge_json)) @ PutUint32 (ChecksumIEEE huge_json)"
  have c: "example_compress huge_json = Inr huge_json"
    by (simp add: example_compress_def)
  have le: "length ?e = DocEntryHeaderSize"
    by (simp add: PutUint64_def PutUint32_def DocEntryHeaderSize_def)
  from WriteDocument_record [of example_marshal huge huge_json example_compress huge_json ?w]
    marshal_huge c
  obtain w' where
    w1: "WriteDocument example_marshal example_compress ?w huge = Inr w'" and
    w2: "map_of (w_index w') (doc_ID huge)
           = Some \<lparr>ent_Offset = w_offset ?w, ent_Size = of_nat (length huge_json),
                    ent_CompressedSize = of_nat (length huge_json),
                    ent_Checksum = ChecksumIEEE huge_json\<rparr>" and
    w3f: "take (DocEntryHeaderSize + length huge_json) (drop (w_pos ?w) (w_dataFile w'))
           = PutUint64 (w_offset ?w) @ PutUint32 (of_nat (length huge_json))
               @ PutUint32 (of_nat (length huge_json)) @ PutUint32 (ChecksumIEEE huge_json)
               @ huge_json"
    by blast
  have w3: "take (DocEntryHeaderSize + length huge_json) (drop (w_pos ?w) (w_dataFile w'))
              = ?e @ huge_json"
    using w3f by simp
  let ?entry = "\<lparr>ent_Offset = 8, ent_Size = 0, ent_CompressedSize = 0,
                   ent_Checksum = ChecksumIEEE huge_json\<rparr> :: DocumentEntry"
  have e: "map_of (w_index w') ''u1'' = Some ?entry"
    using w2 by (simp add: huge_def size_huge)
  have "take (length huge_json) (drop (w_pos ?w + DocEntryHeaderSize) (w_dataFile w')) = huge_json"
    using w3 le by (rule stored_payload)
  then have p: "take 4294967296 (drop 28 (w_dataFile w')) = huge_json"
    by (simp add: length_huge_json DocEntryHeaderSize_def)
  have "take 16 (take (DocEntryHeaderSize + length huge_json) (drop (w_pos ?w) (w_dataFile w')))
          = [8, 0, 0, 0, 0, 0, 0, 0, 0, 0, 0, 0, 0, 0, 0, 0]"
    unfolding w3f by (simp add: PutUint64_def PutUint32_def size_huge)
  then have h: "take 16 (drop 8 (w_dataFile w')) = [8, 0, 0, 0, 0, 0, 0, 0, 0, 0, 0, 0, 0, 0, 0, 0]"
    by (simp add: DocEntryHeaderSize_def length_huge_json)
  have d: "example_decompress (take 4294967296 (drop 28 (w_dataFile w'))) = Inr huge_json"
    unfolding p by (simp add: example_decompress_def)
  have n: "length huge_json \<noteq> unat (ent_Size ?entry)"
    by (simp add: length_huge_json)
  have "\<exists>w' entry out.
         WriteDocument example_marshal example_compress ?w huge = Inr w'
       \<and> map_of (w_index w') ''u1'' = Some entry
       \<and> ent_Size entry = 0
       \<and> take 16 (drop 8 (w_dataFile w')) = [8, 0, 0, 0, 0, 0, 0, 0, 0, 0, 0, 0, 0, 0, 0, 0]
       \<and> take 4294967296 (drop 28 (w_dataFile w')) = huge_json
       \<and> example_decompress (take 4294967296 (drop 28 (w_dataFile w'))) = Inr out
       \<and> length out = 4294967296
       \<and> length out \<noteq> unat (ent_Size entry)"
    using w1 e h p d n length_huge_json
    by (intro exI [of _ w'] exI [of _ ?entry] exI [of _ huge_json]) simp
  then show ?thesis
    using marshal_huge length_huge_json by simp
qed

subsection \<open>Find and the order of iteration\<close>

lemma same_map_mset: "same_map xs ys \<Longrightarrow> mset xs = mset ys"
  unfolding same_map_def
  by (metis distinct_map set_eq_iff_mset_eq_distinct)

lemma same_map_map_of: "same_map xs ys \<Longrightarrow> map_of xs = map_of ys"
  unfolding same_map_def
  by (simp add: map_of_inject_set)

lemma lookupIndexes_filter:
  "lookupIndexes idxs docs f
     = lookupIndexes (filter (\<lambda>ni. idx_FieldName (snd ni) = flt_Field f) idxs) docs f"
  by (induction idxs) (auto split: option.splits)

lemma lookupIndexes_map_of:
  "map_of docs1 = map_of docs2 \<Longrightarrow> lookupIndexes idxs docs1 f = lookupIndexes idxs docs2 f"
  by (induction idxs) (auto split: option.splits)

lemma same_map_filter_Nil:
  assumes "same_map xs ys" and "filter P xs = []"
  shows "filter P ys = []"
proof -
  have "mset (filter P ys) = mset (filter P xs)"
    using same_map_mset [OF assms(1)] by (metis mset_filter)
  then have "mset (filter P ys) = {#}" using assms(2) by simp
  then show ?thesis by (metis mset_zero_iff)
qed

lemma same_map_filter_single:
  assumes "same_map xs ys" and "filter P xs = [a]"
  shows "filter P ys = [a]"
proof -
  have "mset (filter P ys) = mset (filter P xs)"
    using same_map_mset [OF assms(1)] by (metis mset_filter)
  then have "mset (filter P ys) = {#a#}" using assms(2) by simp
  then show ?thesis by (metis mset_single_iff_right)
qed


lemma skipLimit_id: "qry_Skip q \<le> 0 \<Longrightarrow> qry_Limit q \<le> 0 \<Longrightarrow> skipLimit q rs = rs"
  by (simp add: skipLimit_def)

lemma same_map_scanAll:
  assumes "same_map docs1 docs2"
  shows "mset (scanAll docs1 fs) = mset (scanAll docs2 fs)"
proof -
  have "mset (map snd docs1) = mset (map snd docs2)"
    using same_map_mset [OF assms] by (metis mset_map)
  then have "mset (filter (\<lambda>doc. matchesAllFilters doc fs) (map snd docs1))
           = mset (filter (\<lambda>doc. matchesAllFilters doc fs) (map snd docs2))"
    by (metis mset_filter)
  then show ?thesis
    by (simp add: scanAll_def Clone_def)
qed

lemma Find_no_index:
  assumes s: "same_state c1 c2"
    and q: "qry_Filters q = f # fs" "flt_Operator f = ''eq''"
    and n: "indexesOn c1 (flt_Field f) = []"
    and sl: "qry_Skip q \<le> 0" "qry_Limit q \<le> 0"
  shows "mset (Find c1 q) = mset (Find c2 q)"
proof -
  have si: "same_map (coll_Indexes c1) (coll_Indexes c2)"
    and sd: "same_map (coll_Documents c1) (coll_Documents c2)"
    using s by (simp_all add: same_state_def)
  have n2: "indexesOn c2 (flt_Field f) = []"
    using same_map_filter_Nil [OF si] n by (simp add: indexesOn_def)
  have l1: "lookupIndexes (coll_Indexes c1) (coll_Documents c1) f = NoIndex"
    using lookupIndexes_filter [of "coll_Indexes c1" "coll_Documents c1" f] n
    by (simp add: indexesOn_def)
  have l2: "lookupIndexes (coll_Indexes c2) (coll_Documents c2) f = NoIndex"
    using lookupIndexes_filter [of "coll_Indexes c2" "coll_Documents c2" f] n2
    by (simp add: indexesOn_def)
  show ?thesis
    using q l1 l2 sl same_map_scanAll [OF sd]
    by (simp add: Find_def skipLimit_id)
qed

lemma Find_one_index:
  assumes s: "same_state c1 c2"
    and q: "qry_Filters q = f # fs" "flt_Operator f = ''eq''"
    and n: "indexesOn c1 (flt_Field f) = [(n, idx)]"
    and d: "Index_Find idx (flt_Value f) = None
            \<or> (\<exists>docID doc. Index_Find idx (flt_Value f) = Some docID
                  \<and> map_of (coll_Documents c1) docID = Some doc)"
  shows "Find c1 q = Find c2 q"
proof -
  have si: "same_map (coll_Indexes c1) (coll_Indexes c2)"
    and sd: "same_map (coll_Documents c1) (coll_Documents c2)"
    using s by (simp_all add: same_state_def)
  have n2: "indexesOn c2 (flt_Field f) = [(n, idx)]"
    using same_map_filter_single [OF si] n by (simp add: indexesOn_def)
  have fn: "idx_FieldName idx = flt_Field f"
  proof -
    have "(n, idx) \<in> set (indexesOn c1 (flt_Field f))" using n by simp
    then show ?thesis by (simp add: indexesOn_def)
  qed
  have m: "map_of (coll_Documents c1) = map_of (coll_Documents c2)"
    using same_map_map_of [OF sd] .
  have l1: "lookupIndexes (coll_Indexes c1) (coll_Documents c1) f
              = lookupIndexes [(n, idx)] (coll_Documents c1) f"
    using lookupIndexes_filter [of "coll_Indexes c1" "coll_Documents c1" f] n
    by (simp add: indexesOn_def)
  have l2: "lookupIndexes (coll_Indexes c2) (coll_Documents c2) f
              = lookupIndexes [(n, idx)] (coll_Documents c1) f"
    using lookupIndexes_filter [of "coll_Indexes c2" "coll_Documents c2" f] n2
      lookupIndexes_map_of [OF m]
    by (simp add: indexesOn_def)
  from d have "lookupIndexes [(n, idx)] (coll_Documents c1) f \<noteq> NoIndex"
    using fn by auto
  then show ?thesis
    using q l1 l2
    by (cases "lookupIndexes [(n, idx)] (coll_Documents c1) f") (simp_all add: Find_def)
qed

text \<open>
  C6 (as amended). For two iteration orders of one collection state and a query whose
  first filter has operator eq: when no index is on the filter's field and neither skip
  nor limit is positive, the two results differ at most in order; when exactly one index
  is on the field and its lookup misses, or hits the id of a stored document, the two
  results are equal.
\<close>

theorem Find_same_results_across_iteration_orders:
  "same_state c1 c2 \<and> qry_Filters q = f # fs \<and> flt_Operator f = ''eq''
   \<longrightarrow> (indexesOn c1 (flt_Field f) = [] \<and> qry_Skip q \<le> 0 \<and> qry_Limit q \<le> 0
          \<longrightarrow> mset (Find c1 q) = mset (Find c2 q))
       \<and> (indexesOn c1 (flt_Field f) = [(n, idx)]
            \<and> (Index_Find idx (flt_Value f) = None
                \<or> (\<exists>docID doc. Index_Find idx (flt_Value f) = Some docID
                      \<and> map_of (coll_Documents c1) docID = Some doc))
          \<longrightarrow> Find c1 q = Find c2 q)"
  using Find_no_index [of c1 c2 q f fs] Find_one_index [of c1 c2 q f fs n idx]
  by blast

lemma mails_eq:
  "mails = \<lparr>coll_Name = ''users'', coll_Schema = None,
     coll_Documents = [(''d1'', mail1), (''d2'', mail2)],
     coll_Indexes =
       [(''_id'', \<lparr>idx_Name = ''_id'', idx_FieldName = ''_id'',
                   idx_Data = [(''d1'', ''d1''), (''d2'', ''d2'')]\<rparr>),
        (''by_email'', \<lparr>idx_Name = ''by_email'', idx_FieldName = ''email'',
                        idx_Data = [(''a@x'', ''d2'')]\<rparr>)]\<rparr>"
  by (simp add: mails_def mail1_def mail2_def run_defs)

lemma mails_unindexed_eq:
  "mails_unindexed = \<lparr>coll_Name = ''users'', coll_Schema = None,
     coll_Documents = [(''d1'', mail1), (''d2'', mail2)],
     coll_Indexes =
       [(''_id'', \<lparr>idx_Name = ''_id'', idx_FieldName = ''_id'',
                   idx_Data = [(''d1'', ''d1''), (''d2'', ''d2'')]\<rparr>)]\<rparr>"
  by (simp add: mails_unindexed_def mail1_def mail2_def run_defs)

lemma mails_two_indexes_eq:
  "mails_two_indexes = \<lparr>coll_Name = ''users'', coll_Schema = None,
     coll_Documents = [(''d1'', mail1)],
     coll_Indexes =
       [(''_id'', \<lparr>idx_Name = ''_id'', idx_FieldName = ''_id'', idx_Data = [(''d1'', ''d1'')]\<rparr>),
        (''by_email'', \<lparr>idx_Name = ''by_email'', idx_FieldName = ''email'', idx_Data = []\<rparr>),
        (''by_email2'', \<lparr>idx_Name = ''by_email2'', idx_FieldName = ''email'',
                         idx_Data = [(''a@x'', ''d1'')]\<rparr>)]\<rparr>"
  by (simp add: mails_two_indexes_def mail1_def mail2_def run_defs)

lemmas find_defs =
  Find_def email_query_def reversed_def scanAll_def skipLimit_def matchesFilter_def
  GetValue_def Clone_def Index_Find_def

lemma same_state_reversed:
  assumes "distinct (map fst (coll_Documents c))" and "distinct (map fst (coll_Indexes c))"
  shows "same_state c (reversed c)"
  using assms by (simp add: same_state_def same_map_def reversed_def rev_map [symmetric])

text \<open>
  C6 (as stated) fails. A document is inserted, \<^verbatim>\<open>by_email\<close> is created, a second document
  with the same email is inserted and deleted, and \<^verbatim>\<open>by_email2\<close> is created on the same
  field. The two indexes now disagree on the key, and \<open>Find\<close> returns nothing or the
  first document according to which index the loop visits first. Without an index on the
  field, a limit of 1 keeps whichever matching document the scan visits first.
\<close>

theorem Find_depends_on_iteration_order:
  "same_state mails_two_indexes (reversed mails_two_indexes)
   \<and> Find mails_two_indexes email_query = []
   \<and> Find (reversed mails_two_indexes) email_query = [mail1]
   \<and> same_state mails_unindexed (reversed mails_unindexed)
   \<and> indexesOn mails_unindexed ''email'' = []
   \<and> Find mails_unindexed (email_query\<lparr>qry_Limit := 1\<rparr>) = [mail1]
   \<and> Find (reversed mails_unindexed) (email_query\<lparr>qry_Limit := 1\<rparr>) = [mail2]"
proof -
  have a: "same_state mails_two_indexes (reversed mails_two_indexes)"
    by (rule same_state_reversed) (simp_all add: mails_two_indexes_eq)
  have b: "Find mails_two_indexes email_query = []"
    by (simp add: mails_two_indexes_eq find_defs)
  have c: "Find (reversed mails_two_indexes) email_query = [mail1]"
    by (simp add: mails_two_indexes_eq find_defs) (simp add: mail1_def)
  have d: "same_state mails_unindexed (reversed mails_unindexed)"
    by (rule same_state_reversed) (simp_all add: mails_unindexed_eq)
  have e: "indexesOn mails_unindexed ''email'' = []"
    by (simp add: mails_unindexed_eq indexesOn_def)
  have f: "Find mails_unindexed (email_query\<lparr>qry_Limit := 1\<rparr>) = [mail1]"
    by (simp add: mails_unindexed_eq find_defs) (simp add: mail1_def mail2_def)
  have g: "Find (reversed mails_unindexed) (email_query\<lparr>qry_Limit := 1\<rparr>) = [mail2]"
    by (simp add: mails_unindexed_eq find_defs) (simp add: mail1_def mail2_def)
  show ?thesis using a b c d e f g by simp
qed


theorem Find_same_results_across_iteration_orders_witness:
  "same_state mails (reversed mails)
   \<and> indexesOn mails ''email''
       = [(''by_email'', \<lparr>idx_Name = ''by_email'', idx_FieldName = ''email'',
                           idx_Data = [(''a@x'', ''d2'')]\<rparr>)]
   \<and> Index_Find \<lparr>idx_Name = ''by_email'', idx_FieldName = ''email'',
                   idx_Data = [(''a@x'', ''d2'')]\<rparr> (VStr ''a@x'') = Some ''d2''
   \<and> map_of (coll_Documents mails) ''d2'' = Some mail2
   \<and> Find mails email_query = Find (reversed mails) email_query
   \<and> Find mails email_query = [mail2]
   \<and> same_state mails_unindexed (reversed mails_unindexed)
   \<and> indexesOn mails_unindexed ''email'' = []
   \<and> mset (Find mails_unindexed email_query) = mset (Find (reversed mails_unindexed) email_query)
   \<and> Find mails_unindexed email_query = [mail1, mail2]
   \<and> Find (reversed mails_unindexed) email_query = [mail2, mail1]"
proof -
  let ?f = "\<lparr>flt_Field = ''email'', flt_Operator = ''eq'', flt_Value = VStr ''a@x''\<rparr>"
  let ?idx = "\<lparr>idx_Name = ''by_email'', idx_FieldName = ''email'',
                 idx_Data = [(''a@x'', ''d2'')]\<rparr>"
  have s1: "same_state mails (reversed mails)"
    by (rule same_state_reversed) (simp_all add: mails_eq)
  have s2: "same_state mails_unindexed (reversed mails_unindexed)"
    by (rule same_state_reversed) (simp_all add: mails_unindexed_eq)
  have q: "qry_Filters email_query = ?f # []" "flt_Operator ?f = ''eq''"
    "qry_Skip email_query \<le> 0" "qry_Limit email_query \<le> 0"
    by (simp_all add: email_query_def)
  have i1: "indexesOn mails (flt_Field ?f) = [(''by_email'', ?idx)]"
    by (simp add: mails_eq indexesOn_def)
  have h1: "Index_Find ?idx (flt_Value ?f) = Some ''d2''"
    by (simp add: Index_Find_def)
  have d1: "map_of (coll_Documents mails) ''d2'' = Some mail2"
    by (simp add: mails_eq)
  have i2: "indexesOn mails_unindexed (flt_Field ?f) = []"
    by (simp add: mails_unindexed_eq indexesOn_def)
  have r1: "Find mails email_query = Find (reversed mails) email_query"
    using Find_same_results_across_iteration_orders
      [of mails "reversed mails" email_query ?f "[]" "''by_email''" ?idx] s1 q i1 h1 d1
    by blast
  have r2: "mset (Find mails_unindexed email_query)
              = mset (Find (reversed mails_unindexed) email_query)"
    using Find_same_results_across_iteration_orders
      [of mails_unindexed "reversed mails_unindexed" email_query ?f "[]"] s2 q i2
    by blast
  have v1: "Find mails email_query = [mail2]"
    by (simp add: mails_eq find_defs) (simp add: mail1_def mail2_def)
  have v2: "Find mails_unindexed email_query = [mail1, mail2]"
    by (simp add: mails_unindexed_eq find_defs) (simp add: mail1_def mail2_def)
  have v3: "Find (reversed mails_unindexed) email_query = [mail2, mail1]"
    by (simp add: mails_unindexed_eq find_defs) (simp add: mail1_def mail2_def)
  show ?thesis
    using s1 s2 i1 h1 d1 i2 r1 r2 v1 v2 v3 by simp
qed

subsection \<open>Replaying a log twice\<close>

lemma update_same: "map_of al k = Some v \<Longrightarrow> AList.update k v al = al"
  by (induction al) (auto split: if_splits)

lemma coll_grows_refl: "coll_grows c c"
  by (simp add: coll_grows_def)

lemma coll_grows_trans: "coll_grows a b \<Longrightarrow> coll_grows b c \<Longrightarrow> coll_grows a c"
  unfolding coll_grows_def by blast

lemma db_grows_refl: "db_grows d d"
  by (simp add: db_grows_def coll_grows_refl)

lemma db_grows_trans: "db_grows a b \<Longrightarrow> db_grows b c \<Longrightarrow> db_grows a c"
  unfolding db_grows_def by (meson coll_grows_trans)

lemma dm_grows_refl: "dm_grows d d"
  by (simp add: dm_grows_def db_grows_refl)

lemma dm_grows_trans: "dm_grows a b \<Longrightarrow> dm_grows b c \<Longrightarrow> dm_grows a c"
  unfolding dm_grows_def by (meson db_grows_trans)

lemma grows_lookup:
  assumes "dm_grows dm dm'" and "lookupCollection dm dn cn = Some c"
  shows "\<exists>c'. lookupCollection dm' dn cn = Some c' \<and> coll_grows c c'"
proof -
  from assms(2) obtain db where db: "map_of (dm_Databases dm) dn = Some db"
    and c: "map_of (db_Collections db) cn = Some c"
    by (auto simp: lookupCollection_def split: option.splits)
  from assms(1) db obtain db' where db': "map_of (dm_Databases dm') dn = Some db'"
    and g: "db_grows db db'"
    unfolding dm_grows_def by blast
  from g c obtain c' where "map_of (db_Collections db') cn = Some c'" "coll_grows c c'"
    unfolding db_grows_def by blast
  then show ?thesis using db' by (simp add: lookupCollection_def)
qed

lemma grows_present:
  assumes g: "dm_grows dm dm'" and p: "present dm entry"
  shows "present dm' entry"
proof (cases "wal_Operation entry")
  case WALOpCreateDatabase
  then show ?thesis
    using g p unfolding present_def dm_grows_def by auto
next
  case WALOpCreateCollection
  then show ?thesis
    using p grows_lookup [OF g] unfolding present_def by fastforce
next
  case WALOpCreateIndex
  then show ?thesis
    using p grows_lookup [OF g] unfolding present_def coll_grows_def
    by (fastforce split: WALPayload.splits option.splits)
next
  case WALOpInsert
  then show ?thesis
    using p grows_lookup [OF g] unfolding present_def coll_grows_def
    by (fastforce split: WALPayload.splits option.splits)
qed (use p in \<open>simp_all add: present_def\<close>)


lemma onDatabase_Inr:
  assumes "onDatabase dm dn f = Inr dm'"
  obtains db db' where "map_of (dm_Databases dm) dn = Some db" and "f db = (None, db')"
    and "dm' = dm\<lparr>dm_Databases := AList.update dn db' (dm_Databases dm)\<rparr>"
  using assms
  by (auto simp: onDatabase_def split: option.splits prod.splits)

lemma onCollection_Inr:
  assumes "onCollection dm dn cn f = Inr dm'"
  obtains db c c' where "map_of (dm_Databases dm) dn = Some db"
    and "map_of (db_Collections db) cn = Some c" and "f c = (None, c')"
    and "dm' = dm\<lparr>dm_Databases :=
                    AList.update dn (db\<lparr>db_Collections := AList.update cn c' (db_Collections db)\<rparr>)
                      (dm_Databases dm)\<rparr>"
proof -
  from assms obtain db db' where db: "map_of (dm_Databases dm) dn = Some db"
    and f: "(case map_of (db_Collections db) cn of
               None \<Rightarrow> (Some (CollectionNotExist cn), db)
             | Some coll \<Rightarrow>
                 (case f coll of
                    (e, coll') \<Rightarrow>
                      (e, db\<lparr>db_Collections := AList.update cn coll' (db_Collections db)\<rparr>)))
            = (None, db')"
    and dm': "dm' = dm\<lparr>dm_Databases := AList.update dn db' (dm_Databases dm)\<rparr>"
    unfolding onCollection_def by (rule onDatabase_Inr)
  from f obtain c c' where "map_of (db_Collections db) cn = Some c" "f c = (None, c')"
    "db' = db\<lparr>db_Collections := AList.update cn c' (db_Collections db)\<rparr>"
    by (auto split: option.splits prod.splits)
  then show ?thesis using that db dm' by blast
qed

lemma onCollection_same:
  assumes "lookupCollection dm dn cn = Some c" and "f c = (None, c)"
  shows "onCollection dm dn cn f = Inr dm"
proof -
  from assms(1) obtain db where db: "map_of (dm_Databases dm) dn = Some db"
    and c: "map_of (db_Collections db) cn = Some c"
    by (auto simp: lookupCollection_def split: option.splits)
  have "db\<lparr>db_Collections := AList.update cn c (db_Collections db)\<rparr> = db"
    using c by (simp add: update_same)
  then show ?thesis
    using db c assms(2) by (simp add: onCollection_def onDatabase_def update_same)
qed

lemma replace_collection_lookup:
  assumes "map_of (dm_Databases dm) dn = Some db"
  shows "lookupCollection
           (dm\<lparr>dm_Databases :=
                 AList.update dn (db\<lparr>db_Collections := AList.update cn c' (db_Collections db)\<rparr>)
                   (dm_Databases dm)\<rparr>) dn cn = Some c'"
  by (simp add: lookupCollection_def update_conv')

lemma replace_collection_grows:
  assumes db: "map_of (dm_Databases dm) dn = Some db"
    and c: "map_of (db_Collections db) cn = Some c"
    and g: "coll_grows c c'"
  shows "dm_grows dm
           (dm\<lparr>dm_Databases :=
                 AList.update dn (db\<lparr>db_Collections := AList.update cn c' (db_Collections db)\<rparr>)
                   (dm_Databases dm)\<rparr>)"
proof -
  have d: "db_grows db (db\<lparr>db_Collections := AList.update cn c' (db_Collections db)\<rparr>)"
    unfolding db_grows_def using c g by (auto simp: update_conv' coll_grows_refl)
  show ?thesis
    unfolding dm_grows_def using db d by (auto simp: update_conv' db_grows_refl)
qed

lemma updateIndexes_keys: "map fst (snd (updateIndexes idxs oldDoc newDoc)) = map fst idxs"
proof (induction idxs)
  case Nil
  show ?case by simp
next
  case (Cons a rest)
  obtain n idx where a: "a = (n, idx)" by (cases a)
  show ?case
    using Cons.IH
    by (auto simp add: a split_beta split: option.splits)
qed

lemma Insert_grows:
  assumes "Insert vt uuid c doc = (None, c')"
  shows "coll_grows c c'" and "map_of (coll_Documents c') (doc_ID (assignID uuid doc)) \<noteq> None"
proof -
  let ?d = "assignID uuid doc"
  let ?c1 = "c\<lparr>coll_Documents := AList.update (doc_ID ?d) ?d (coll_Documents c)\<rparr>"
  from assms have c': "c' = ?c1\<lparr>coll_Indexes := snd (updateIndexes (coll_Indexes ?c1) None (Some ?d))\<rparr>"
    by (auto simp: Insert_def Let_def split: if_splits option.splits prod.splits)
  have "dom (map_of (snd (updateIndexes (coll_Indexes c) None (Some ?d)))) = dom (map_of (coll_Indexes c))"
    by (simp add: dom_map_of_conv_image_fst updateIndexes_keys flip: set_map)
  then show "coll_grows c c'"
    unfolding c' coll_grows_def by (auto simp: update_conv')
  show "map_of (coll_Documents c') (doc_ID ?d) \<noteq> None"
    unfolding c' by (simp add: update_conv')
qed

lemma CreateIndex_grows:
  assumes "CreateIndex c n f = (None, c')"
  shows "coll_grows c c'" and "map_of (coll_Indexes c') n \<noteq> None"
proof -
  from assms obtain idx where c': "c' = c\<lparr>coll_Indexes := AList.update n idx (coll_Indexes c)\<rparr>"
    by (auto simp: CreateIndex_def split: if_splits option.splits prod.splits)
  show "coll_grows c c'"
    unfolding c' coll_grows_def by (auto simp: update_conv')
  show "map_of (coll_Indexes c') n \<noteq> None"
    unfolding c' by (simp add: update_conv')
qed


lemma applyEntry_present_noop:
  assumes g: "guarded entry" and p: "present dm entry"
  shows "applyEntry vt uuids skipMissing dm entry = Inr dm"
proof (cases "wal_Operation entry")
  case WALOpCreateDatabase
  then show ?thesis using p by (simp add: applyEntry_def present_def)
next
  case WALOpCreateCollection
  with p obtain db where db: "map_of (dm_Databases dm) (wal_Database entry) = Some db"
    and c: "map_of (db_Collections db) (wal_Collection entry) \<noteq> None"
    by (auto simp: present_def lookupCollection_def split: option.splits)
  then show ?thesis
    using WALOpCreateCollection by (simp add: applyEntry_def onDatabase_def update_same)
next
  case WALOpCreateIndex
  with p obtain n f c where d: "wal_Data entry = IndexPayload n f"
    and c: "lookupCollection dm (wal_Database entry) (wal_Collection entry) = Some c"
    and i: "map_of (coll_Indexes c) n \<noteq> None"
    by (auto simp: present_def split: WALPayload.splits option.splits)
  show ?thesis
    using WALOpCreateIndex d i onCollection_same [OF c]
    by (simp add: applyEntry_def)
next
  case WALOpInsert
  with p obtain doc c where d: "wal_Data entry = DocumentPayload doc"
    and c: "lookupCollection dm (wal_Database entry) (wal_Collection entry) = Some c"
    and i: "map_of (coll_Documents c) (doc_ID doc) \<noteq> None"
    by (auto simp: present_def split: WALPayload.splits option.splits)
  show ?thesis
    using WALOpInsert d i onCollection_same [OF c]
    by (simp add: applyEntry_def)
qed (use g in \<open>simp_all add: guarded_def\<close>)

lemma applyEntry_guarded:
  assumes g: "guarded entry" and a: "applyEntry vt uuids skipMissing dm entry = Inr dm'"
  shows "dm_grows dm dm'" and "present dm' entry"
proof -
  have "dm_grows dm dm' \<and> present dm' entry"
  proof (cases "wal_Operation entry")
    case WALOpCreateDatabase
    show ?thesis
    proof (cases "map_of (dm_Databases dm) (wal_Database entry) = None")
      case True
      then have dm': "dm' = dm\<lparr>dm_Databases :=
                      AList.update (wal_Database entry) (NewDatabase (wal_Database entry))
                        (dm_Databases dm)\<rparr>"
        using a WALOpCreateDatabase by (simp add: applyEntry_def)
      show ?thesis
        unfolding dm' dm_grows_def present_def using True WALOpCreateDatabase
        by (auto simp: update_conv' db_grows_refl)
    next
      case False
      then have "dm' = dm"
        using a WALOpCreateDatabase by (simp add: applyEntry_def)
      then show ?thesis
        using False WALOpCreateDatabase by (simp add: dm_grows_refl present_def)
    qed
  next
    case WALOpCreateCollection
    let ?sch = "case wal_Data entry of SchemaPayload s \<Rightarrow> Some s | _ \<Rightarrow> None"
    from a WALOpCreateCollection obtain db db' where
      db: "map_of (dm_Databases dm) (wal_Database entry) = Some db" and
      f: "(if map_of (db_Collections db) (wal_Collection entry) \<noteq> None then (None, db)
           else CreateCollection db (wal_Collection entry) ?sch) = (None, db')" and
      dm': "dm' = dm\<lparr>dm_Databases := AList.update (wal_Database entry) db' (dm_Databases dm)\<rparr>"
      by (auto simp: applyEntry_def elim!: onDatabase_Inr)
    have g1: "db_grows db db'" and p1: "map_of (db_Collections db') (wal_Collection entry) \<noteq> None"
      using f
      by (auto simp: CreateCollection_def db_grows_def update_conv' coll_grows_refl
          split: if_splits option.splits)
    show ?thesis
      unfolding dm' dm_grows_def present_def lookupCollection_def
      using db g1 p1 WALOpCreateCollection
      by (auto simp: update_conv' db_grows_refl)
  next
    case WALOpCreateIndex
    from a WALOpCreateIndex obtain n f where d: "wal_Data entry = IndexPayload n f"
      by (auto simp: applyEntry_def split: WALPayload.splits)
    from a WALOpCreateIndex d obtain db c c' where
      db: "map_of (dm_Databases dm) (wal_Database entry) = Some db" and
      c: "map_of (db_Collections db) (wal_Collection entry) = Some c" and
      f: "(if map_of (coll_Indexes c) n \<noteq> None then (None, c) else CreateIndex c n f) = (None, c')" and
      dm': "dm' = dm\<lparr>dm_Databases :=
                    AList.update (wal_Database entry)
                      (db\<lparr>db_Collections := AList.update (wal_Collection entry) c' (db_Collections db)\<rparr>)
                      (dm_Databases dm)\<rparr>"
      by (auto simp: applyEntry_def elim!: onCollection_Inr)
    have g1: "coll_grows c c'" and p1: "map_of (coll_Indexes c') n \<noteq> None"
      using f CreateIndex_grows [of c n f c']
      by (auto simp: coll_grows_refl split: if_splits)
    show ?thesis
      unfolding dm' using replace_collection_grows [OF db c g1]
        replace_collection_lookup [OF db] p1 WALOpCreateIndex d
      by (simp add: present_def)
  next
    case WALOpInsert
    from a WALOpInsert obtain doc where d: "wal_Data entry = DocumentPayload doc"
      by (auto simp: applyEntry_def split: WALPayload.splits)
    have id: "doc_ID doc \<noteq> []"
      using g WALOpInsert d by (simp add: guarded_def)
    from a WALOpInsert d obtain db c c' where
      db: "map_of (dm_Databases dm) (wal_Database entry) = Some db" and
      c: "map_of (db_Collections db) (wal_Collection entry) = Some c" and
      f: "(if map_of (coll_Documents c) (doc_ID doc) \<noteq> None then (None, c)
           else Insert vt (uuids (wal_Sequence entry)) c doc) = (None, c')" and
      dm': "dm' = dm\<lparr>dm_Databases :=
                    AList.update (wal_Database entry)
                      (db\<lparr>db_Collections := AList.update (wal_Collection entry) c' (db_Collections db)\<rparr>)
                      (dm_Databases dm)\<rparr>"
      by (auto simp: applyEntry_def elim!: onCollection_Inr)
    have g1: "coll_grows c c'" and p1: "map_of (coll_Documents c') (doc_ID doc) \<noteq> None"
      using f Insert_grows [of vt "uuids (wal_Sequence entry)" c doc c'] id
      by (auto simp: coll_grows_refl assignID_def split: if_splits)
    show ?thesis
      unfolding dm' using replace_collection_grows [OF db c g1]
        replace_collection_lookup [OF db] p1 WALOpInsert d
      by (simp add: present_def)
  qed (use g in \<open>simp_all add: guarded_def\<close>)
  then show "dm_grows dm dm'" and "present dm' entry" by simp_all
qed

lemma Replay_grows:
  assumes "list_all guarded entries" and "Replay vt uuids skipMissing dm entries = Inr dm'"
  shows "dm_grows dm dm'"
  using assms
proof (induction entries arbitrary: dm)
  case Nil
  then show ?case by (simp add: dm_grows_refl)
next
  case (Cons e es)
  then obtain dm1 where a: "applyEntry vt uuids skipMissing dm e = Inr dm1"
    and r: "Replay vt uuids skipMissing dm1 es = Inr dm'"
    by (auto split: sum.splits)
  have "dm_grows dm dm1" using applyEntry_guarded(1) [OF _ a] Cons.prems(1) by simp
  moreover have "dm_grows dm1 dm'" using Cons.IH [OF _ r] Cons.prems(1) by simp
  ultimately show ?case by (rule dm_grows_trans)
qed

lemma Replay_all_present:
  assumes "list_all guarded entries" and "Replay vt uuids skipMissing dm entries = Inr dm'"
  shows "list_all (present dm') entries"
  using assms
proof (induction entries arbitrary: dm)
  case Nil
  then show ?case by simp
next
  case (Cons e es)
  then obtain dm1 where a: "applyEntry vt uuids skipMissing dm e = Inr dm1"
    and r: "Replay vt uuids skipMissing dm1 es = Inr dm'"
    by (auto split: sum.splits)
  have ge: "guarded e" and ges: "list_all guarded es" using Cons.prems(1) by simp_all
  have "present dm1 e" using applyEntry_guarded(2) [OF ge a] .
  then have "present dm' e" using grows_present [OF Replay_grows [OF ges r]] by blast
  moreover have "list_all (present dm') es" using Cons.IH [OF ges r] .
  ultimately show ?case by simp
qed

lemma Replay_present_noop:
  assumes "list_all guarded entries" and "list_all (present dm) entries"
  shows "Replay vt uuids skipMissing dm entries = Inr dm"
  using assms
  by (induction entries) (simp_all add: applyEntry_present_noop)

text \<open>
  C7 (as amended). A log made only of the guarded operations (create_database,
  create_collection, create_index, and insert of a document that carries its id) that
  replays without error reaches a state on which replaying it again changes nothing,
  whatever the second replay's validator, generated ids and treatment of missing
  documents.
\<close>

theorem Replay_guarded_idempotent:
  "list_all guarded entries \<and> Replay vt uuids skipMissing dm entries = Inr dm'
   \<longrightarrow> Replay vt' uuids' skipMissing' dm' entries = Inr dm'"
  using Replay_all_present Replay_present_noop by blast

lemmas wal_defs =
  applyEntry_def onCollection_def onDatabase_def wal_entry_def wal_dm_def NewDatabaseManager_def
  NewDatabase_def CreateCollection_def Validate_def vt_example_def

lemma setup_run:
  "Replay vt_example uuids_example skipMissing NewDatabaseManager setup_log = Inr (wal_dm mails)"
  by (simp add: setup_log_def mails_eq wal_defs mail1_def mail2_def run_defs)

lemma churn_once:
  "Replay vt_example uuids_example skipMissing (wal_dm mails) churn_log = Inr (wal_dm users_once)"
  by (simp add: churn_log_def mails_eq users_once_def wal_defs mail1_def mail2_def run_defs)

lemma churn_again_strict:
  "Replay vt_example uuids_example False (wal_dm users_once) churn_log
     = Inl (DocumentNotFound ''d2'')"
  by (simp add: churn_log_def users_once_def wal_defs mail1_def mail2_def run_defs)

lemma churn_again_skipping:
  "Replay vt_example uuids_example True (wal_dm users_once) churn_log = Inr (wal_dm users_again)"
  by (simp add: churn_log_def users_once_def users_again_def wal_defs mail1_def mail2_def run_defs)

text \<open>
  C7 (as stated) fails. From the state the log \<open>setup_log\<close> builds (two documents with
  the same email and the index \<^verbatim>\<open>by_email\<close>), the log \<open>churn_log\<close> (delete the first
  document, insert it again, delete the second) replays without error. Replayed a second
  time it fails on the delete of the second document when a missing document ends the
  replay; when it is passed over, the second replay ends in a state whose index
  \<^verbatim>\<open>by_email\<close> has an entry that the state after the first replay does not have.
\<close>

theorem Replay_twice_differs:
  "Replay vt_example uuids_example False NewDatabaseManager setup_log = Inr (wal_dm mails)
   \<and> Replay vt_example uuids_example False (wal_dm mails) churn_log = Inr (wal_dm users_once)
   \<and> Replay vt_example uuids_example False (wal_dm users_once) churn_log
       = Inl (DocumentNotFound ''d2'')
   \<and> Replay vt_example uuids_example True (wal_dm mails) churn_log = Inr (wal_dm users_once)
   \<and> Replay vt_example uuids_example True (wal_dm users_once) churn_log
       = Inr (wal_dm users_again)
   \<and> wal_dm users_once \<noteq> wal_dm users_again"
proof -
  have "wal_dm users_once \<noteq> wal_dm users_again"
    by (simp add: wal_dm_def users_once_def users_again_def)
  then show ?thesis
    by (simp add: setup_run churn_once churn_again_strict churn_again_skipping)
qed

theorem Replay_guarded_idempotent_witness:
  "list_all guarded setup_log
   \<and> Replay vt_example uuids_example False NewDatabaseManager setup_log = Inr (wal_dm mails)
   \<and> Replay vt_example uuids_example True (wal_dm mails) setup_log = Inr (wal_dm mails)"
proof -
  have g: "list_all guarded setup_log"
    by (simp add: setup_log_def guarded_def wal_entry_def mail1_def mail2_def)
  show ?thesis
    using g setup_run [of False]
      Replay_guarded_idempotent [of setup_log vt_example uuids_example False NewDatabaseManager
        "wal_dm mails" vt_example uuids_example True]
    by simp
qed

end
